theory Spec2Isabelle
  imports Complex_Main "HOL-Library.AList"
begin

section \<open>Values held by a feed row\<close>

text \<open>
  Python floats are modelled as exact rationals together with the three non-finite
  values; rounding and the sign of zero are not modelled.  \<open>Inf True\<close> is
  \<open>+inf\<close>, \<open>Inf False\<close> is \<open>-inf\<close>.
\<close>

datatype fl = Fin rat | Inf bool | NaN

text \<open>A pandas cell: a string, a float (possibly NaN) or \<open>None\<close>.\<close>

datatype cell = CStr string | CFloat fl | CNone

datatype py_error = ValueError | TypeError | ZeroDivisionError | StoreError

fun fl_less :: "fl \<Rightarrow> fl \<Rightarrow> bool" where
  "fl_less (Fin x) (Fin y) = (x < y)"
| "fl_less NaN _ = False"
| "fl_less _ NaN = False"
| "fl_less (Inf s) (Inf t) = (\<not> s \<and> t)"
| "fl_less (Inf s) (Fin _) = (\<not> s)"
| "fl_less (Fin _) (Inf t) = t"

definition isna :: "fl \<Rightarrow> bool" where
  "isna x = (x = NaN)"

section \<open>Data frames\<close>

text \<open>
  A row is an association list from column names to cells; a frame carries its column
  index and its rows.  A column of the index that a row does not hold reads as NaN,
  as pandas fills it.
\<close>

type_synonym row = "(string \<times> cell) list"

record frame =
  columns :: "string list"
  rows :: "row list"

definition cell_at :: "row \<Rightarrow> string \<Rightarrow> cell" where
  "cell_at r c = (case map_of r c of Some v \<Rightarrow> v | None \<Rightarrow> CFloat NaN)"

section \<open>RecordValidator: \<open>DataValidator.validate_numeric_range\<close>\<close>

text \<open>
  An anomaly as \<open>_log_anomaly\<close> appends it: its type, its message and the dump of
  the offending rows when one is given.  The two messages of
  \<open>validate_numeric_range\<close> are kept as constructors holding the values the
  format string interpolates; the wall-clock timestamp is left out.
\<close>

datatype message = ColumnNotFound string | OutOfRange nat string

record anomaly =
  atype :: string
  amessage :: message
  adata :: "row list option"

definition log_anomaly :: "anomaly list \<Rightarrow> string \<Rightarrow> message \<Rightarrow> row list option \<Rightarrow> anomaly list" where
  "log_anomaly anomalies t m d = anomalies @ [\<lparr>atype = t, amessage = m, adata = d\<rparr>]"

text \<open>
  \<open>pd.to_numeric(..., errors='coerce')\<close> on one cell.  The parser pandas applies to
  a string is not part of the repository: it is the parameter \<open>parse\<close>, which
  returns NaN where pandas finds no number.
\<close>

fun to_numeric :: "(string \<Rightarrow> fl) \<Rightarrow> cell \<Rightarrow> fl" where
  "to_numeric parse (CStr s) = parse s"
| "to_numeric parse (CFloat x) = x"
| "to_numeric parse CNone = NaN"

definition coerce_column :: "(string \<Rightarrow> fl) \<Rightarrow> string \<Rightarrow> row \<Rightarrow> row" where
  "coerce_column parse c r = AList.update c (CFloat (to_numeric parse (cell_at r c))) r"

definition invalid_mask :: "(string \<Rightarrow> fl) \<Rightarrow> string \<Rightarrow> fl \<Rightarrow> fl \<Rightarrow> row \<Rightarrow> bool" where
  "invalid_mask parse c min_val max_val r =
     (let x = to_numeric parse (cell_at r c)
      in fl_less x min_val \<or> fl_less max_val x \<or> isna x)"

definition validate_numeric_range ::
  "(string \<Rightarrow> fl) \<Rightarrow> anomaly list \<Rightarrow> frame \<Rightarrow> string \<Rightarrow> fl \<Rightarrow> fl \<Rightarrow> frame \<times> anomaly list" where
  "validate_numeric_range parse anomalies df c min_val max_val =
     (if c \<notin> set (columns df)
      then (df, log_anomaly anomalies ''validation'' (ColumnNotFound c) None)
      else
        let invalid_rows = map (coerce_column parse c)
                             (filter (invalid_mask parse c min_val max_val) (rows df));
            anomalies' = (if invalid_rows \<noteq> []
                          then log_anomaly anomalies ''validation''
                                 (OutOfRange (length invalid_rows) c) (Some invalid_rows)
                          else anomalies)
        in (df\<lparr>rows := map (coerce_column parse c)
                          (filter (\<lambda>r. \<not> invalid_mask parse c min_val max_val r) (rows df))\<rparr>,
            anomalies'))"

text \<open>The spec's wording: the field parses as a number lying within the bounds.\<close>

definition within_range :: "(string \<Rightarrow> fl) \<Rightarrow> string \<Rightarrow> rat \<Rightarrow> rat \<Rightarrow> row \<Rightarrow> bool" where
  "within_range parse c lo hi r =
     (case to_numeric parse (cell_at r c) of Fin x \<Rightarrow> lo \<le> x \<and> x \<le> hi | _ \<Rightarrow> False)"

section \<open>TextNormalizer: \<open>normalize_text\<close>\<close>

text \<open>
  Python strings are sequences of code points.  A character is modelled as one 8-bit
  code point (Latin-1), which covers the French names of the feed; \<open>str.lower\<close>,
  canonical decomposition with the removal of combining marks, and the regular
  expression classes \<open>\w\<close> and \<open>\s\<close> are written out on that range.
  \<open>ftfy.fix_text\<close> is a third-party function and stays a parameter.
\<close>

definition cp :: "char \<Rightarrow> nat" where
  "cp c = of_char c"

definition py_isspace :: "char \<Rightarrow> bool" where
  "py_isspace c = (let n = cp c in (9 \<le> n \<and> n \<le> 13) \<or> (28 \<le> n \<and> n \<le> 32) \<or> n = 133 \<or> n = 160)"

definition is_word :: "char \<Rightarrow> bool" where
  "is_word c = (let n = cp c in
      (48 \<le> n \<and> n \<le> 57) \<or> (65 \<le> n \<and> n \<le> 90) \<or> n = 95 \<or> (97 \<le> n \<and> n \<le> 122)
      \<or> n = 170 \<or> n = 178 \<or> n = 179 \<or> n = 181 \<or> n = 185 \<or> n = 186
      \<or> (188 \<le> n \<and> n \<le> 190) \<or> (192 \<le> n \<and> n \<le> 214) \<or> (216 \<le> n \<and> n \<le> 246)
      \<or> (248 \<le> n))"

definition lower_char :: "char \<Rightarrow> char" where
  "lower_char c = (let n = cp c in
      if (65 \<le> n \<and> n \<le> 90) \<or> (192 \<le> n \<and> n \<le> 222 \<and> n \<noteq> 215) then char_of (n + 32) else c)"

definition py_lower :: "string \<Rightarrow> string" where
  "py_lower s = map lower_char s"

text \<open>
  \<open>unicodedata.normalize('NFD', text)\<close> followed by dropping the characters of
  category \<open>Mn\<close>: on Latin-1 every decomposable letter is left with its base letter.
\<close>

definition base_char :: "char \<Rightarrow> char" where
  "base_char c = (let n = cp c in
      if 192 \<le> n \<and> n \<le> 197 then CHR ''A'' else if n = 199 then CHR ''C''
      else if 200 \<le> n \<and> n \<le> 203 then CHR ''E'' else if 204 \<le> n \<and> n \<le> 207 then CHR ''I''
      else if n = 209 then CHR ''N'' else if 210 \<le> n \<and> n \<le> 214 then CHR ''O''
      else if 217 \<le> n \<and> n \<le> 220 then CHR ''U'' else if n = 221 then CHR ''Y''
      else if 224 \<le> n \<and> n \<le> 229 then CHR ''a'' else if n = 231 then CHR ''c''
      else if 232 \<le> n \<and> n \<le> 235 then CHR ''e'' else if 236 \<le> n \<and> n \<le> 239 then CHR ''i''
      else if n = 241 then CHR ''n'' else if 242 \<le> n \<and> n \<le> 246 then CHR ''o''
      else if 249 \<le> n \<and> n \<le> 252 then CHR ''u'' else if n = 253 \<or> n = 255 then CHR ''y''
      else c)"

definition strip_accents :: "string \<Rightarrow> string" where
  "strip_accents s = map base_char s"

text \<open>\<open>re.sub(r'[^\w\s]', ' ', text)\<close>\<close>

definition replace_punct :: "string \<Rightarrow> string" where
  "replace_punct s = map (\<lambda>c. if is_word c \<or> py_isspace c then c else CHR '' '') s"

text \<open>\<open>re.sub(r'\s+', ' ', text)\<close>: every maximal run of whitespace becomes one space.\<close>

function collapse_spaces :: "string \<Rightarrow> string" where
  "collapse_spaces [] = []"
| "collapse_spaces (c # cs) =
     (if py_isspace c then CHR '' '' # collapse_spaces (dropWhile py_isspace cs)
      else c # collapse_spaces cs)"
  by pat_completeness auto
termination
  by (relation "measure length") (auto simp: length_dropWhile_le less_Suc_eq_le)

definition py_strip :: "string \<Rightarrow> string" where
  "py_strip s = rev (dropWhile py_isspace (rev (dropWhile py_isspace s)))"

text \<open>\<open>fix_text_encoding\<close>: a value that is not a string is returned as it is.\<close>

fun fix_text_encoding :: "(string \<Rightarrow> string) \<Rightarrow> cell \<Rightarrow> cell" where
  "fix_text_encoding ftfy (CStr s) = CStr (ftfy s)"
| "fix_text_encoding ftfy v = v"

fun normalize_text :: "(string \<Rightarrow> string) \<Rightarrow> cell \<Rightarrow> bool \<Rightarrow> string" where
  "normalize_text ftfy (CStr s) remove_accents =
     (let t = ftfy s;
          t = py_lower t;
          t = (if remove_accents then strip_accents t else t);
          t = replace_punct t
      in py_strip (collapse_spaces t))"
| "normalize_text ftfy v remove_accents = []"

section \<open>FieldCoercer: Python's \<open>float\<close>\<close>

text \<open>
  \<open>float(s)\<close> on a string: surrounding whitespace is stripped, then an optional sign
  and either \<open>inf\<close>, \<open>infinity\<close>, \<open>nan\<close> (in any case) or a decimal literal with
  optional fraction and exponent, digits possibly grouped by single underscores.
  Anything else raises \<open>ValueError\<close>.

  The whitespace that \<open>float\<close> strips is not that of \<open>str.strip\<close>: it is the
  ASCII whitespace and, of the other characters, those that are first turned into a
  space (U+0085 and U+00A0 on this range).  The separators U+001C to U+001F stay where
  they are and make the conversion fail.
\<close>

definition float_isspace :: "char \<Rightarrow> bool" where
  "float_isspace c = (let n = cp c in (9 \<le> n \<and> n \<le> 13) \<or> n = 32 \<or> n = 133 \<or> n = 160)"

definition float_strip :: "string \<Rightarrow> string" where
  "float_strip s = rev (dropWhile float_isspace (rev (dropWhile float_isspace s)))"

definition is_digit :: "char \<Rightarrow> bool" where
  "is_digit c = (48 \<le> cp c \<and> cp c \<le> 57)"

definition digit_val :: "char \<Rightarrow> nat" where
  "digit_val c = cp c - 48"

text \<open>
  \<open>digits acc n s\<close> reads digits (a single underscore allowed between two digits)
  and returns the value read, the number of digits and the rest of the string.
\<close>

fun digits :: "nat \<Rightarrow> nat \<Rightarrow> string \<Rightarrow> nat \<times> nat \<times> string" where
  "digits acc n [] = (acc, n, [])"
| "digits acc n [c] = (if is_digit c then (10 * acc + digit_val c, Suc n, []) else (acc, n, [c]))"
| "digits acc n (c # d # cs) =
     (if is_digit c then digits (10 * acc + digit_val c) (Suc n) (d # cs)
      else if c = CHR ''_'' \<and> is_digit d \<and> 0 < n then digits acc n (d # cs)
      else (acc, n, c # d # cs))"

text \<open>The exponent part: \<open>e\<close> or \<open>E\<close>, an optional sign, at least one digit, then the end.\<close>

definition exponent :: "string \<Rightarrow> int option" where
  "exponent s =
     (case s of
        [] \<Rightarrow> Some 0
      | c # cs \<Rightarrow>
          if c = CHR ''e'' \<or> c = CHR ''E'' then
            (let (neg, ds) = (case cs of
                                d # ds' \<Rightarrow> if d = CHR ''-'' then (True, ds')
                                           else if d = CHR ''+'' then (False, ds')
                                           else (False, cs)
                              | [] \<Rightarrow> (False, cs));
                 (v, n, rest) = digits 0 0 ds
             in if n = 0 \<or> rest \<noteq> [] then None
                else Some (if neg then - int v else int v))
          else None)"

definition scale :: "rat \<Rightarrow> int \<Rightarrow> rat" where
  "scale x e = (if 0 \<le> e then x * 10 ^ nat e else x / 10 ^ nat (- e))"

definition decimal :: "string \<Rightarrow> rat option" where
  "decimal s =
     (let (i, ni, rest) = digits 0 0 s in
      case rest of
        c # cs \<Rightarrow>
          if c = CHR ''.'' then
            (let (f, nf, rest') = digits 0 0 cs in
             if ni = 0 \<and> nf = 0 then None
             else (case exponent rest' of
                     None \<Rightarrow> None
                   | Some e \<Rightarrow> Some (scale (of_nat i + of_nat f / 10 ^ nf) e)))
          else if ni = 0 then None
          else (case exponent rest of None \<Rightarrow> None | Some e \<Rightarrow> Some (scale (of_nat i) e))
      | [] \<Rightarrow> if ni = 0 then None else Some (of_nat i))"

text \<open>
  The value of a literal is a binary64 number.  From \<open>2^1024 - 2^970\<close> on, the
  nearest one is \<open>inf\<close>; up to \<open>2^-1075\<close>, that is when the inverse reaches
  \<open>2^1075\<close>, it is \<open>0\<close>.  Between the two the model keeps the decimal value as it
  is written and does not round it to 53 bits.  The value read is not negative: the
  sign is applied afterwards.
\<close>

definition to_double :: "rat \<Rightarrow> fl" where
  "to_double x =
     (if (2 ^ 1024 - 2 ^ 970 :: int) \<le> \<lfloor>x\<rfloor> then Inf True
      else if x = 0 \<or> (2 ^ 1075 :: int) \<le> \<lfloor>1 / x\<rfloor> then Fin 0
      else Fin x)"

definition unsigned_float :: "string \<Rightarrow> fl option" where
  "unsigned_float s =
     (let l = py_lower s in
      if l = ''inf'' \<or> l = ''infinity'' then Some (Inf True)
      else if l = ''nan'' then Some NaN
      else map_option to_double (decimal s))"

fun fl_neg :: "fl \<Rightarrow> fl" where
  "fl_neg (Fin x) = Fin (- x)"
| "fl_neg (Inf s) = Inf (\<not> s)"
| "fl_neg NaN = NaN"

definition py_float_str :: "string \<Rightarrow> py_error + fl" where
  "py_float_str s =
     (let t = float_strip s;
          (neg, body) = (case t of
                           c # cs \<Rightarrow> if c = CHR ''-'' then (True, cs)
                                      else if c = CHR ''+'' then (False, cs)
                                      else (False, t)
                         | [] \<Rightarrow> (False, t))
      in case unsigned_float body of
           None \<Rightarrow> Inl ValueError
         | Some x \<Rightarrow> Inr (if neg then fl_neg x else x))"

text \<open>\<open>float(v)\<close> on a cell: a float is returned as it is, \<open>None\<close> raises \<open>TypeError\<close>.\<close>

fun py_float :: "cell \<Rightarrow> py_error + fl" where
  "py_float (CStr s) = py_float_str s"
| "py_float (CFloat x) = Inr x"
| "py_float CNone = Inl TypeError"

text \<open>Float arithmetic on the extended values; \<open>x / 0\<close> raises \<open>ZeroDivisionError\<close>.\<close>

fun fl_add :: "fl \<Rightarrow> fl \<Rightarrow> fl" where
  "fl_add (Fin x) (Fin y) = Fin (x + y)"
| "fl_add NaN _ = NaN"
| "fl_add _ NaN = NaN"
| "fl_add (Inf s) (Inf t) = (if s = t then Inf s else NaN)"
| "fl_add (Inf s) (Fin _) = Inf s"
| "fl_add (Fin _) (Inf t) = Inf t"

fun fl_mul :: "fl \<Rightarrow> fl \<Rightarrow> fl" where
  "fl_mul (Fin x) (Fin y) = Fin (x * y)"
| "fl_mul NaN _ = NaN"
| "fl_mul _ NaN = NaN"
| "fl_mul (Inf s) (Inf t) = Inf (s = t)"
| "fl_mul (Inf s) (Fin y) = (if y = 0 then NaN else Inf (s = (0 < y)))"
| "fl_mul (Fin x) (Inf t) = (if x = 0 then NaN else Inf (t = (0 < x)))"

fun fl_div :: "fl \<Rightarrow> fl \<Rightarrow> py_error + fl" where
  "fl_div a (Fin y) =
     (if y = 0 then Inl ZeroDivisionError
      else Inr (case a of Fin x \<Rightarrow> Fin (x / y) | Inf s \<Rightarrow> Inf (s = (0 < y)) | NaN \<Rightarrow> NaN))"
| "fl_div a NaN = Inr NaN"
| "fl_div a (Inf t) = Inr (case a of Fin x \<Rightarrow> Fin 0 | _ \<Rightarrow> NaN)"

text \<open>Truth value of a float: zero is false, every other value (NaN too) is true.\<close>

definition truthy :: "fl \<Rightarrow> bool" where
  "truthy x = (x \<noteq> Fin 0)"

section \<open>Data model: \<open>models.py\<close>\<close>

text \<open>
  The four tables of the registry.  A nullable column is an \<open>option\<close>; timestamps
  are readings of a clock, modelled as natural numbers.  A historical record has the
  shape of a current state, so both share the record \<open>urgences\<close>.
\<close>

record region =
  r_id :: nat
  r_rss :: string
  r_nom :: string
  r_nom_normalise :: string

record etablissement =
  e_id :: nat
  e_source_id :: "string option"
  e_no_permis_installation :: "string option"
  e_nom_etablissement :: cell
  e_nom_etablissement_normalise :: "string option"
  e_nom_installation :: cell
  e_nom_installation_normalise :: "string option"
  e_type :: "string option"
  e_adresse :: "string option"
  e_code_postal :: "string option"
  e_ville :: "string option"
  e_province :: "string option"
  e_region_id :: "nat option"
  e_point_geo :: "(cell \<times> cell) option"
  e_date_maj :: nat

record urgences =
  u_etablissement_id :: nat
  u_civieres_fonctionnelles :: "fl option"
  u_civieres_occupees :: "fl option"
  u_patients_24h :: "fl option"
  u_patients_48h :: "fl option"
  u_total_patients :: "fl option"
  u_patients_en_attente :: "fl option"
  u_dms_civiere :: "fl option"
  u_dms_ambulatoire :: "fl option"
  u_taux_occupation :: "fl option"
  u_date_extraction :: "nat option"
  u_date_maj :: "nat option"
  u_statut_validation :: "string option"

record tables =
  etablissements :: "etablissement list"
  regions :: "region list"
  etat_actuel :: "urgences list"
  historique :: "urgences list"

section \<open>The SQLAlchemy session\<close>

text \<open>
  \<open>SessionLocal\<close> is made with \<open>autoflush=False\<close>: a query reads the rows the
  transaction has flushed (\<open>visible\<close>, with the attribute values their objects hold in
  memory) and does not see objects that were added and not flushed yet
  (\<open>pending_etat\<close>, \<open>pending_hist\<close>).  \<open>flush\<close> sends the pending objects to the
  store, which rejects a second current state for one facility (\<open>unique=True\<close>) and
  a missing extraction date (\<open>nullable=False\<close>).  The sequence of facility ids is
  not rolled back.  Store faults such as a lost connection are outside the model, and
  so is a failure of the queries on the table of regions.
\<close>

datatype log_entry =
    WarnDmsCiviere | WarnDmsAmbulatoire | ErrUpdateCurrent nat | ErrFind | ErrCreate
  | ErrUpdateDatabase | ErrProcess | InfoCreate

record session =
  committed :: tables
  visible :: tables
  pending_etat :: "urgences list"
  pending_hist :: "urgences list"
  next_id :: nat
  log :: "log_entry list"

definition begin_session :: "tables \<Rightarrow> nat \<Rightarrow> session" where
  "begin_session T n =
     \<lparr>committed = T, visible = T, pending_etat = [], pending_hist = [], next_id = n, log = []\<rparr>"

definition rollback :: "session \<Rightarrow> session" where
  "rollback s = s\<lparr>visible := committed s, pending_etat := [], pending_hist := []\<rparr>"

definition flush :: "session \<Rightarrow> py_error + session" where
  "flush s =
     (let ea = etat_actuel (visible s) @ pending_etat s;
          h = historique (visible s) @ pending_hist s
      in if distinct (map u_etablissement_id ea)
            \<and> list_all (\<lambda>u. u_date_extraction u \<noteq> None) (pending_etat s @ pending_hist s)
         then Inr (s\<lparr>visible := (visible s)\<lparr>etat_actuel := ea, historique := h\<rparr>,
                     pending_etat := [], pending_hist := []\<rparr>)
         else Inl StoreError)"

definition commit :: "session \<Rightarrow> py_error + session" where
  "commit s = (case flush s of Inl e \<Rightarrow> Inl e | Inr s' \<Rightarrow> Inr (s'\<lparr>committed := visible s'\<rparr>))"

text \<open>
  \<open>query.filter(...).first()\<close> has no \<open>ORDER BY\<close>: of the rows that pass, the store
  returns the one it meets first, in an order of its own that an update of a row can
  change.  \<open>first_by rank\<close> takes that order as a ranking of the rows, the least rank
  first.  \<open>first\<close> is the query on a column declared \<open>unique=True\<close>
  (\<open>etablissement_id\<close> of a current state), where at most one row of the store
  passes and the order plays no part.
\<close>

fun least_by :: "('a \<Rightarrow> nat) \<Rightarrow> 'a \<Rightarrow> 'a list \<Rightarrow> 'a" where
  "least_by rank m [] = m"
| "least_by rank m (x # xs) = least_by rank (if rank x < rank m then x else m) xs"

definition first_by :: "('a \<Rightarrow> nat) \<Rightarrow> ('a \<Rightarrow> bool) \<Rightarrow> 'a list \<Rightarrow> 'a option" where
  "first_by rank P xs = (case filter P xs of [] \<Rightarrow> None | y # ys \<Rightarrow> Some (least_by rank y ys))"

definition first :: "('a \<Rightarrow> bool) \<Rightarrow> 'a list \<Rightarrow> 'a option" where
  "first P xs = List.find P xs"

section \<open>PostgreSQL \<open>ILIKE\<close>\<close>

text \<open>
  In a pattern \<open>%\<close> stands for any sequence of characters, \<open>_\<close> for any single
  character and a backslash takes the next character literally.  \<open>ILIKE\<close> compares
  without regard to case.  A \<open>NULL\<close> column never matches.
\<close>

fun like :: "string \<Rightarrow> string \<Rightarrow> bool" where
  "like [] s = (s = [])"
| "like (p # ps) [] = (p = CHR ''%'' \<and> like ps [])"
| "like (p # ps) (c # cs) =
     (if p = CHR ''%'' then like ps (c # cs) \<or> like (p # ps) cs
      else if p = CHR 0x5C then (case ps of [] \<Rightarrow> False | q # qs \<Rightarrow> q = c \<and> like qs cs)
      else (p = CHR ''_'' \<or> p = c) \<and> like ps cs)"

definition ilike :: "string \<Rightarrow> string \<Rightarrow> bool" where
  "ilike s pattern = like (py_lower pattern) (py_lower s)"

text \<open>\<open>column.ilike(f"%{x}%")\<close>\<close>

definition ilike_contains :: "string option \<Rightarrow> string \<Rightarrow> bool" where
  "ilike_contains col x = (case col of None \<Rightarrow> False | Some s \<Rightarrow> ilike s (CHR ''%'' # x @ ''%''))"

text \<open>Python's \<open>x in s\<close> on strings.\<close>

fun starts_with :: "string \<Rightarrow> string \<Rightarrow> bool" where
  "starts_with s [] = True"
| "starts_with [] (p # ps) = False"
| "starts_with (c # cs) (p # ps) = (c = p \<and> starts_with cs ps)"

fun contains :: "string \<Rightarrow> string \<Rightarrow> bool" where
  "contains [] x = (x = [])"
| "contains (c # cs) x = (starts_with (c # cs) x \<or> contains cs x)"

section \<open>FacilityResolver: \<open>DataUpdater._find_etablissement\<close>\<close>

text \<open>
  What the resolver takes from outside the repository: \<open>ftfy.fix_text\<close>, Python's
  formatting of a float (\<open>str(x)\<close>), the date string
  \<open>datetime.now().strftime('%Y%m%d')\<close>, the reference catalog loaded from the ODHF
  extract (\<open>self.etablissements_info\<close>, in the order of the dictionary), and the
  store:
  \<^item> \<open>accepts\<close>: the store takes the facility row;
  \<^item> \<open>formed\<close>: the values of the row suit their columns, so that the statement is
    executed and draws an id from the sequence even when a constraint then rejects the
    row (a value that does not suit its column is refused before that, and no id is
    drawn);
  \<^item> \<open>refuses\<close>: the driver does not send the string as the parameter of a query,
    and the query raises;
  \<^item> \<open>heap\<close> and \<open>region_heap\<close>: the order in which the store meets the rows of
    the two tables.
\<close>

record info =
  i_source_id :: string
  i_type :: string
  i_adresse :: string
  i_code_postal :: string
  i_ville :: string
  i_province :: string
  i_latitude :: "cell option"
  i_longitude :: "cell option"

record env =
  ftfy :: "string \<Rightarrow> string"
  fmt_float :: "fl \<Rightarrow> string"
  accepts :: "etablissement \<Rightarrow> bool"
  today :: string
  etablissements_info :: "(string \<times> info) list"
  formed :: "etablissement \<Rightarrow> bool"
  refuses :: "string \<Rightarrow> bool"
  heap :: "etablissement \<Rightarrow> nat"
  region_heap :: "region \<Rightarrow> nat"

fun py_str :: "env \<Rightarrow> cell \<Rightarrow> string" where
  "py_str E (CStr s) = s"
| "py_str E (CFloat x) = fmt_float E x"
| "py_str E CNone = ''None''"

fun cell_truthy :: "cell \<Rightarrow> bool" where
  "cell_truthy (CStr s) = (s \<noteq> [])"
| "cell_truthy (CFloat x) = truthy x"
| "cell_truthy CNone = False"

fun cell_isna :: "cell \<Rightarrow> bool" where
  "cell_isna (CStr s) = False"
| "cell_isna (CFloat x) = isna x"
| "cell_isna CNone = True"

text \<open>\<open>row.get(key, default)\<close>\<close>

definition row_get :: "row \<Rightarrow> string \<Rightarrow> cell \<Rightarrow> cell" where
  "row_get r k d = (case map_of r k of Some v \<Rightarrow> v | None \<Rightarrow> d)"

definition e_acute :: char where "e_acute = char_of (233 :: nat)"

definition Quebec :: string where
  "Quebec = ''Qu'' @ [e_acute] @ ''bec''"

definition A_completer :: string where
  "A_completer = [char_of (192 :: nat)] @ '' compl'' @ [e_acute] @ ''ter''"

definition Hopital :: string where
  "Hopital = ''H'' @ [char_of (244 :: nat)] @ ''pital''"

definition valide :: string where
  "valide = ''valid'' @ [e_acute]"

definition PROVINCE_MAPPING :: "(string \<times> string) list" where
  "PROVINCE_MAPPING =
     [(''qc'', Quebec), (''QC'', Quebec), (''Qc'', Quebec), (''quebec'', Quebec),
      (''QUEBEC'', Quebec), (''on'', ''Ontario''), (''ON'', ''Ontario''),
      (''bc'', ''Colombie-Britannique''), (''BC'', ''Colombie-Britannique''),
      (''ab'', ''Alberta''), (''AB'', ''Alberta''), (''mb'', ''Manitoba''), (''MB'', ''Manitoba''),
      (''sk'', ''Saskatchewan''), (''SK'', ''Saskatchewan''),
      (''ns'', ''Nouvelle-'' @ [char_of (201 :: nat)] @ ''cosse''),
      (''NS'', ''Nouvelle-'' @ [char_of (201 :: nat)] @ ''cosse''),
      (''nb'', ''Nouveau-Brunswick''), (''NB'', ''Nouveau-Brunswick''),
      (''nl'', ''Terre-Neuve-et-Labrador''), (''NL'', ''Terre-Neuve-et-Labrador''),
      (''pe'', [char_of (206 :: nat)] @ ''le-du-Prince-'' @ [char_of (201 :: nat)] @ ''douard''),
      (''PE'', [char_of (206 :: nat)] @ ''le-du-Prince-'' @ [char_of (201 :: nat)] @ ''douard''),
      (''yt'', ''Yukon''), (''YT'', ''Yukon''),
      (''nt'', ''Territoires du Nord-Ouest''), (''NT'', ''Territoires du Nord-Ouest''),
      (''nu'', ''Nunavut''), (''NU'', ''Nunavut'')]"

text \<open>\<open>f"{n:04d}"\<close>\<close>

fun show_nat :: "nat \<Rightarrow> string" where
  "show_nat n = (if n < 10 then [char_of (48 + n)] else show_nat (n div 10) @ [char_of (48 + n mod 10)])"

definition pad4 :: "nat \<Rightarrow> string" where
  "pad4 n = replicate (4 - length (show_nat n)) (CHR ''0'') @ show_nat n"

definition find_region_id :: "env \<Rightarrow> session \<Rightarrow> cell \<Rightarrow> cell \<Rightarrow> nat option" where
  "find_region_id E s rss region_name =
     (let rs = regions (visible s);
          rss' = py_strip (py_str E rss);
          region = (if rss' \<noteq> [] then first_by (region_heap E) (\<lambda>r. r_rss r = rss') rs else None);
          region = (if region = None \<and> cell_truthy region_name
                    then first_by (region_heap E)
                           (\<lambda>r. ilike_contains (Some (r_nom_normalise r))
                                  (normalize_text (ftfy E) region_name True)) rs
                    else region);
          region = (if region = None then first_by (region_heap E) (\<lambda>r. r_rss r = ''06'') rs
                    else region);
          region = (if region = None then first_by (region_heap E) (\<lambda>r. True) rs else region)
      in map_option r_id region)"

definition default_info :: "env \<Rightarrow> info" where
  "default_info E =
     \<lparr>i_source_id = ''GEN-'' @ today E @ ''-'' @ pad4 (length (etablissements_info E) + 1),
      i_type = Hopital, i_adresse = A_completer, i_code_postal = [], i_ville = A_completer,
      i_province = Quebec, i_latitude = None, i_longitude = None\<rparr>"

definition get_etablissement_info :: "env \<Rightarrow> string \<Rightarrow> string \<Rightarrow> info" where
  "get_etablissement_info E nom_installation_norm nom_etablissement_norm =
     (case List.find (\<lambda>(nom_odhf, i).
                         (nom_installation_norm \<noteq> [] \<and> contains nom_odhf nom_installation_norm)
                       \<or> (nom_etablissement_norm \<noteq> [] \<and> contains nom_odhf nom_etablissement_norm))
                     (etablissements_info E) of
        Some (nom_odhf, i) \<Rightarrow> i
      | None \<Rightarrow> default_info E)"

text \<open>
  The three lookups of the cascade.  Each runs only when its input is not empty and no
  earlier lookup found a facility.  A query whose parameter the driver refuses raises,
  and the cascade ends there.
\<close>

definition query_etablissement ::
  "env \<Rightarrow> session \<Rightarrow> string \<Rightarrow> (etablissement \<Rightarrow> bool) \<Rightarrow> py_error + etablissement option" where
  "query_etablissement E s parameter P =
     (if refuses E parameter then Inl StoreError
      else Inr (first_by (heap E) P (etablissements (visible s))))"

definition lookup ::
  "env \<Rightarrow> session \<Rightarrow> string \<Rightarrow> string \<Rightarrow> string \<Rightarrow> py_error + etablissement option" where
  "lookup E s no_permis nom_installation_std nom_etablissement_std =
     (case (if no_permis \<noteq> [] \<and> py_strip no_permis \<noteq> []
            then query_etablissement E s no_permis (\<lambda>e. e_no_permis_installation e = Some no_permis)
            else Inr None) of
        Inl err \<Rightarrow> Inl err
      | Inr etablissement \<Rightarrow>
          (case (if etablissement = None \<and> nom_installation_std \<noteq> []
                 then query_etablissement E s (CHR ''%'' # nom_installation_std @ ''%'')
                        (\<lambda>e. ilike_contains (e_nom_installation_normalise e) nom_installation_std)
                 else Inr etablissement) of
             Inl err \<Rightarrow> Inl err
           | Inr etablissement \<Rightarrow>
               (if etablissement = None \<and> nom_etablissement_std \<noteq> []
                then query_etablissement E s (CHR ''%'' # nom_etablissement_std @ ''%'')
                       (\<lambda>e. ilike_contains (e_nom_etablissement_normalise e) nom_etablissement_std)
                else Inr etablissement)))"

definition point_geo_of :: "info \<Rightarrow> (cell \<times> cell) option" where
  "point_geo_of i =
     (case (i_latitude i, i_longitude i) of
        (Some lat, Some lon) \<Rightarrow>
          if cell_truthy lat \<and> cell_truthy lon \<and> \<not> cell_isna lat \<and> \<not> cell_isna lon
          then Some (lon, lat) else None
      | _ \<Rightarrow> None)"

definition standard_province :: "string \<Rightarrow> string" where
  "standard_province province =
     (case map_of PROVINCE_MAPPING (py_lower province) of Some p \<Rightarrow> p | None \<Rightarrow> province)"

definition new_etablissement :: "env \<Rightarrow> session \<Rightarrow> nat \<Rightarrow> row \<Rightarrow> etablissement" where
  "new_etablissement E s now r =
     (let nom_etablissement = fix_text_encoding (ftfy E) (row_get r ''nom_etablissement'' (CStr []));
          nom_installation = fix_text_encoding (ftfy E) (row_get r ''nom_installation'' (CStr []));
          no_permis = py_str E (row_get r ''no_permis_installation'' (CStr []));
          nom_etablissement_std = normalize_text (ftfy E) nom_etablissement True;
          nom_installation_std = normalize_text (ftfy E) nom_installation True;
          region_id = find_region_id E s (row_get r ''rss'' (CStr [])) (row_get r ''region'' (CStr []));
          i = get_etablissement_info E nom_installation_std nom_etablissement_std
      in \<lparr>e_id = next_id s,
          e_source_id = Some (i_source_id i),
          e_no_permis_installation = Some no_permis,
          e_nom_etablissement = nom_etablissement,
          e_nom_etablissement_normalise = Some nom_etablissement_std,
          e_nom_installation = nom_installation,
          e_nom_installation_normalise = Some nom_installation_std,
          e_type = Some (i_type i),
          e_adresse = Some (i_adresse i),
          e_code_postal = Some (i_code_postal i),
          e_ville = Some (i_ville i),
          e_province = Some (standard_province (i_province i)),
          e_region_id = region_id,
          e_point_geo = point_geo_of i,
          e_date_maj = now\<rparr>)"

text \<open>
  The columns of \<open>etablissements\<close> are \<open>String(n)\<close>: a value that the store takes
  is kept up to its first \<open>n\<close> characters (what it takes beyond them is blanks, which
  it drops).  The table holds the row as stored.
\<close>

definition varchar :: "nat \<Rightarrow> string option \<Rightarrow> string option" where
  "varchar n v = map_option (take n) v"

fun varchar_cell :: "nat \<Rightarrow> cell \<Rightarrow> cell" where
  "varchar_cell n (CStr s) = CStr (take n s)"
| "varchar_cell n v = v"

definition as_stored :: "etablissement \<Rightarrow> etablissement" where
  "as_stored e =
     e\<lparr>e_source_id := varchar 50 (e_source_id e),
       e_no_permis_installation := varchar 50 (e_no_permis_installation e),
       e_nom_etablissement := varchar_cell 255 (e_nom_etablissement e),
       e_nom_etablissement_normalise := varchar 255 (e_nom_etablissement_normalise e),
       e_nom_installation := varchar_cell 255 (e_nom_installation e),
       e_nom_installation_normalise := varchar 255 (e_nom_installation_normalise e),
       e_type := varchar 100 (e_type e),
       e_adresse := varchar 255 (e_adresse e),
       e_code_postal := varchar 10 (e_code_postal e),
       e_ville := varchar 100 (e_ville e),
       e_province := varchar 50 (e_province e)\<rparr>"

text \<open>
  \<open>_find_etablissement\<close>: the facility found by the cascade, or a new one that is
  added and flushed.  When a lookup raises, or the store rejects the flush, the session
  is rolled back and there is no facility for the row.  The facility returned is read
  only for its id; the model returns its row.
\<close>

definition find_etablissement :: "env \<Rightarrow> session \<Rightarrow> nat \<Rightarrow> row \<Rightarrow> session \<times> etablissement option" where
  "find_etablissement E s now r =
     (let nom_etablissement = fix_text_encoding (ftfy E) (row_get r ''nom_etablissement'' (CStr []));
          nom_installation = fix_text_encoding (ftfy E) (row_get r ''nom_installation'' (CStr []));
          no_permis = py_str E (row_get r ''no_permis_installation'' (CStr []));
          nom_etablissement_std = normalize_text (ftfy E) nom_etablissement True;
          nom_installation_std = normalize_text (ftfy E) nom_installation True
      in case lookup E s no_permis nom_installation_std nom_etablissement_std of
           Inl err \<Rightarrow> ((rollback s)\<lparr>log := log s @ [ErrFind]\<rparr>, None)
         | Inr (Some e) \<Rightarrow> (s, Some e)
         | Inr None \<Rightarrow>
             (let e = new_etablissement E s now r;
                  s1 = s\<lparr>log := log s @ [InfoCreate]\<rparr>
              in if \<not> accepts E e
                 then ((rollback s1)\<lparr>next_id := (if formed E e then Suc (next_id s) else next_id s),
                                    log := log s1 @ [ErrCreate]\<rparr>, None)
                 else (case flush (s1\<lparr>next_id := Suc (next_id s),
                                      visible := (visible s1)\<lparr>etablissements :=
                                         etablissements (visible s1) @ [as_stored e]\<rparr>\<rparr>) of
                         Inl err \<Rightarrow> ((rollback s1)\<lparr>next_id := Suc (next_id s),
                                                   log := log s1 @ [ErrCreate]\<rparr>, None)
                       | Inr s2 \<Rightarrow> (s2, Some (as_stored e)))))"

section \<open>ArchivalWriter: \<open>_archive_current_data\<close> and \<open>_update_current_data\<close>\<close>

definition current_of :: "session \<Rightarrow> nat \<Rightarrow> urgences option" where
  "current_of s etablissement_id =
     first (\<lambda>u. u_etablissement_id u = etablissement_id) (etat_actuel (visible s))"

text \<open>
  The historical record takes every field of the current state as it is, so the copy
  is the record itself.
\<close>

definition archive_current_data :: "session \<Rightarrow> nat \<Rightarrow> session" where
  "archive_current_data s etablissement_id =
     (case current_of s etablissement_id of
        None \<Rightarrow> s
      | Some current_data \<Rightarrow> s\<lparr>pending_hist := pending_hist s @ [current_data]\<rparr>)"

text \<open>\<open>s.split(':')\<close> and \<open>s.replace(',', '.')\<close>\<close>

fun split_colon :: "string \<Rightarrow> string list" where
  "split_colon [] = [[]]"
| "split_colon (c # cs) =
     (if c = CHR '':'' then [] # split_colon cs
      else (case split_colon cs of p # ps \<Rightarrow> (c # p) # ps | [] \<Rightarrow> [[c]]))"

definition replace_comma :: "string \<Rightarrow> string" where
  "replace_comma s = map (\<lambda>c. if c = CHR '','' then CHR ''.'' else c) s"

text \<open>
  The body of one of the two \<open>try\<close> blocks on a length of stay: the value to store,
  or the exception that the \<open>except\<close> branch turns into \<open>0\<close> and a warning.
\<close>

definition hours_minutes :: "string \<Rightarrow> py_error + fl" where
  "hours_minutes s =
     (case split_colon s of
        [h, m] \<Rightarrow>
          (case py_float_str h of
             Inl e \<Rightarrow> Inl e
           | Inr x \<Rightarrow>
               (case py_float_str m of
                  Inl e \<Rightarrow> Inl e
                | Inr y \<Rightarrow> (case fl_div y (Fin 60) of Inl e \<Rightarrow> Inl e | Inr q \<Rightarrow> Inr (fl_add x q))))
      | _ \<Rightarrow> Inl ValueError)"

fun parse_dms :: "cell \<Rightarrow> py_error + fl" where
  "parse_dms (CStr s) =
     (if CHR '':'' \<in> set s then hours_minutes s else py_float_str (replace_comma s))"
| "parse_dms (CFloat x) = Inr x"
| "parse_dms CNone = Inr (Fin 0)"

definition coerce_dms :: "cell \<Rightarrow> fl \<times> bool" where
  "coerce_dms v = (case parse_dms v of Inl e \<Rightarrow> (Fin 0, True) | Inr x \<Rightarrow> (x, False))"

text \<open>\<open>taux_occupation\<close> as \<open>scheduler.py\<close> computes it.\<close>

definition taux_occupation :: "fl option \<Rightarrow> fl option \<Rightarrow> fl" where
  "taux_occupation civieres_fonctionnelles civieres_occupees =
     (case (civieres_fonctionnelles, civieres_occupees) of
        (Some f, Some oc) \<Rightarrow>
          if truthy f \<and> fl_less (Fin 0) f
          then (case fl_div oc f of Inr q \<Rightarrow> fl_mul q (Fin 100) | Inl e \<Rightarrow> Fin 0)
          else Fin 0
      | _ \<Rightarrow> Fin 0)"

text \<open>
  The six counts are assigned one after the other from \<open>float(row.get(column, 0))\<close>.
  An exception leaves the assignments made so far in place and ends the update.
\<close>

fun assign_counts ::
  "row \<Rightarrow> (string \<times> (fl option \<Rightarrow> urgences \<Rightarrow> urgences)) list \<Rightarrow> urgences \<Rightarrow> py_error + urgences" where
  "assign_counts r [] u = Inr u"
| "assign_counts r ((c, set_field) # fs) u =
     (case py_float (row_get r c (CFloat (Fin 0))) of
        Inl e \<Rightarrow> Inl e
      | Inr x \<Rightarrow> assign_counts r fs (set_field (Some x) u))"

fun counts_done ::
  "row \<Rightarrow> (string \<times> (fl option \<Rightarrow> urgences \<Rightarrow> urgences)) list \<Rightarrow> urgences \<Rightarrow> urgences" where
  "counts_done r [] u = u"
| "counts_done r ((c, set_field) # fs) u =
     (case py_float (row_get r c (CFloat (Fin 0))) of
        Inl e \<Rightarrow> u
      | Inr x \<Rightarrow> counts_done r fs (set_field (Some x) u))"

definition count_columns :: "(string \<times> (fl option \<Rightarrow> urgences \<Rightarrow> urgences)) list" where
  "count_columns =
     [(''civieres_fonctionnelles'', \<lambda>v u. u\<lparr>u_civieres_fonctionnelles := v\<rparr>),
      (''civieres_occupees'', \<lambda>v u. u\<lparr>u_civieres_occupees := v\<rparr>),
      (''patients_24h'', \<lambda>v u. u\<lparr>u_patients_24h := v\<rparr>),
      (''patients_48h'', \<lambda>v u. u\<lparr>u_patients_48h := v\<rparr>),
      (''total_patients'', \<lambda>v u. u\<lparr>u_total_patients := v\<rparr>),
      (''patients_en_attente'', \<lambda>v u. u\<lparr>u_patients_en_attente := v\<rparr>)]"

text \<open>
  The new field values of a current state, with the warnings and errors logged on the
  way.  When a count cannot be converted the object keeps the counts assigned before
  the failure and nothing else is written.
\<close>

definition updated_values :: "urgences \<Rightarrow> row \<Rightarrow> nat \<Rightarrow> nat \<Rightarrow> urgences \<times> log_entry list" where
  "updated_values current_data r date_extraction now =
     (case assign_counts r count_columns current_data of
        Inl e \<Rightarrow> (counts_done r count_columns current_data,
                  [ErrUpdateCurrent (u_etablissement_id current_data)])
      | Inr u \<Rightarrow>
          (let (dc, wc) = coerce_dms (row_get r ''dms_civiere'' CNone);
               (da, wa) = coerce_dms (row_get r ''dms_ambulatoire'' CNone);
               u = u\<lparr>u_dms_civiere := Some dc, u_dms_ambulatoire := Some da\<rparr>;
               u = u\<lparr>u_taux_occupation :=
                       Some (taux_occupation (u_civieres_fonctionnelles u) (u_civieres_occupees u))\<rparr>
           in (u\<lparr>u_date_extraction := Some date_extraction, u_date_maj := Some now,
                  u_statut_validation := Some valide\<rparr>,
               (if wc then [WarnDmsCiviere] else []) @ (if wa then [WarnDmsAmbulatoire] else []))))"

definition blank_urgences :: "nat \<Rightarrow> urgences" where
  "blank_urgences etablissement_id =
     \<lparr>u_etablissement_id = etablissement_id, u_civieres_fonctionnelles = None,
      u_civieres_occupees = None, u_patients_24h = None, u_patients_48h = None,
      u_total_patients = None, u_patients_en_attente = None, u_dms_civiere = None,
      u_dms_ambulatoire = None, u_taux_occupation = None, u_date_extraction = None,
      u_date_maj = None, u_statut_validation = None\<rparr>"

text \<open>Writing to the first row that passes, as the object returned by \<open>first()\<close> is mutated.\<close>

fun replace_first :: "('a \<Rightarrow> bool) \<Rightarrow> 'a \<Rightarrow> 'a list \<Rightarrow> 'a list" where
  "replace_first P y [] = []"
| "replace_first P y (x # xs) = (if P x then y # xs else x # replace_first P y xs)"

definition update_current_data :: "session \<Rightarrow> nat \<Rightarrow> row \<Rightarrow> nat \<Rightarrow> nat \<Rightarrow> session" where
  "update_current_data s etablissement_id r date_extraction now =
     (case current_of s etablissement_id of
        Some current_data \<Rightarrow>
          (let (u, l) = updated_values current_data r date_extraction now
           in s\<lparr>visible := (visible s)\<lparr>etat_actuel :=
                   replace_first (\<lambda>u. u_etablissement_id u = etablissement_id) u
                     (etat_actuel (visible s))\<rparr>,
                 log := log s @ l\<rparr>)
      | None \<Rightarrow>
          (let (u, l) = updated_values (blank_urgences etablissement_id) r date_extraction now
           in s\<lparr>pending_etat := pending_etat s @ [u], log := log s @ l\<rparr>))"

text \<open>\<open>ApplyMeasurement\<close>: archive, then write.\<close>

definition apply_measurement :: "session \<Rightarrow> nat \<Rightarrow> row \<Rightarrow> nat \<Rightarrow> nat \<Rightarrow> session" where
  "apply_measurement s etablissement_id r date_extraction now =
     update_current_data (archive_current_data s etablissement_id) etablissement_id r
       date_extraction now"

section \<open>One ingestion cycle: \<open>DataUpdater._update_database\<close>\<close>

fun process_rows :: "env \<Rightarrow> nat \<Rightarrow> row list \<Rightarrow> session \<Rightarrow> session" where
  "process_rows E now [] s = s"
| "process_rows E now (r # rs) s =
     (case find_etablissement E s now r of
        (s1, Some etablissement) \<Rightarrow>
          process_rows E now rs (apply_measurement s1 (e_id etablissement) r now now)
      | (s1, None) \<Rightarrow> process_rows E now rs s1)"

definition update_database :: "env \<Rightarrow> nat \<Rightarrow> frame \<Rightarrow> tables \<Rightarrow> nat \<Rightarrow> session" where
  "update_database E now df T n =
     (let s = process_rows E now (rows df) (begin_session T n)
      in case commit s of
           Inr s' \<Rightarrow> s'
         | Inl e \<Rightarrow> (rollback s)\<lparr>log := log s @ [ErrUpdateDatabase]\<rparr>)"

section \<open>FieldCoercer: \<open>DataProcessor.process_urgences_data\<close>\<close>

text \<open>
  The stages of \<open>process_urgences_data\<close> from the numeric conversion on; the frame
  is taken after the renaming of its columns and the cleaning of its text columns.
  The lambda applied to the two length-of-stay columns calls \<open>float\<close> on a string and
  lets its exception escape.
\<close>

definition numeric_columns :: "string list" where
  "numeric_columns =
     [''civieres_fonctionnelles'', ''civieres_occupees'', ''patients_24h'', ''patients_48h'',
      ''total_patients'', ''patients_en_attente'', ''dms_civiere'', ''dms_ambulatoire'']"

fun dms_lambda :: "cell \<Rightarrow> py_error + cell" where
  "dms_lambda (CStr s) =
     (case py_float_str (replace_comma s) of Inl e \<Rightarrow> Inl e | Inr x \<Rightarrow> Inr (CFloat x))"
| "dms_lambda v = Inr v"

fun apply_column :: "(cell \<Rightarrow> py_error + cell) \<Rightarrow> string \<Rightarrow> row list \<Rightarrow> py_error + row list" where
  "apply_column f c [] = Inr []"
| "apply_column f c (r # rs) =
     (case f (cell_at r c) of
        Inl e \<Rightarrow> Inl e
      | Inr v \<Rightarrow> (case apply_column f c rs of
                    Inl e \<Rightarrow> Inl e
                  | Inr rs' \<Rightarrow> Inr (AList.update c v r # rs')))"

definition fillna0 :: "fl \<Rightarrow> fl" where
  "fillna0 x = (if isna x then Fin 0 else x)"

definition to_numeric_fillna :: "(string \<Rightarrow> fl) \<Rightarrow> string \<Rightarrow> row \<Rightarrow> row" where
  "to_numeric_fillna parse c r = AList.update c (CFloat (fillna0 (to_numeric parse (cell_at r c)))) r"

fun convert_columns :: "(string \<Rightarrow> fl) \<Rightarrow> string list \<Rightarrow> frame \<Rightarrow> py_error + frame" where
  "convert_columns parse [] df = Inr df"
| "convert_columns parse (c # cs) df =
     (if c \<in> set (columns df)
      then (case (if c = ''dms_civiere'' \<or> c = ''dms_ambulatoire''
                  then apply_column dms_lambda c (rows df) else Inr (rows df)) of
              Inl e \<Rightarrow> Inl e
            | Inr rs \<Rightarrow> convert_columns parse cs (df\<lparr>rows := map (to_numeric_fillna parse c) rs\<rparr>))
      else convert_columns parse cs df)"

definition row_taux :: "(string \<Rightarrow> fl) \<Rightarrow> row \<Rightarrow> fl" where
  "row_taux parse r =
     (let oc = to_numeric parse (cell_at r ''civieres_occupees'');
          f = to_numeric parse (cell_at r ''civieres_fonctionnelles'')
      in if \<not> isna oc \<and> \<not> isna f \<and> fl_less (Fin 0) f
         then (case fl_div oc f of Inr q \<Rightarrow> fl_mul q (Fin 100) | Inl e \<Rightarrow> Fin 0)
         else Fin 0)"

definition add_column :: "string \<Rightarrow> (row \<Rightarrow> cell) \<Rightarrow> frame \<Rightarrow> frame" where
  "add_column c f df =
     df\<lparr>columns := (if c \<in> set (columns df) then columns df else columns df @ [c]),
        rows := map (\<lambda>r. AList.update c (f r) r) (rows df)\<rparr>"

definition process_urgences_data ::
  "env \<Rightarrow> (string \<Rightarrow> fl) \<Rightarrow> anomaly list \<Rightarrow> frame \<Rightarrow> py_error + frame \<times> anomaly list" where
  "process_urgences_data E parse anomalies df =
     (case convert_columns parse numeric_columns df of
        Inl e \<Rightarrow> Inl e
      | Inr df1 \<Rightarrow>
          (let (df2, a2) = (if ''civieres_fonctionnelles'' \<in> set (columns df1)
                            then validate_numeric_range parse anomalies df1
                                   ''civieres_fonctionnelles'' (Fin 0) (Fin 1000)
                            else (df1, anomalies));
               (df3, a3) = (if ''civieres_occupees'' \<in> set (columns df2)
                            then validate_numeric_range parse a2 df2
                                   ''civieres_occupees'' (Fin 0) (Fin 1000)
                            else (df2, a2));
               df4 = (if ''civieres_fonctionnelles'' \<in> set (columns df3)
                         \<and> ''civieres_occupees'' \<in> set (columns df3)
                      then add_column ''taux_occupation'' (\<lambda>r. CFloat (row_taux parse r)) df3
                      else df3);
               df5 = (if ''source_id'' \<notin> set (columns df4)
                      then add_column ''source_id''
                             (\<lambda>r. CStr (''URG-'' @ py_str E (row_get r ''no_permis_installation'' (CStr []))
                                         @ ''-'' @ today E)) df4
                      else df4);
               df6 = (if ''no_permis_installation'' \<in> set (columns df5)
                      then add_column ''no_permis_installation''
                             (\<lambda>r. CStr (py_str E (cell_at r ''no_permis_installation''))) df5
                      else add_column ''no_permis_installation'' (\<lambda>r. CStr []) df5)
           in Inr (df6, a3)))"

section \<open>\<open>DataUpdater.update_urgences_data\<close>\<close>

text \<open>
  The cycle as the scheduler runs it, from the frame read from the feed: an exception
  of the processing step is logged and the store is not touched.
\<close>

definition update_urgences_data ::
  "env \<Rightarrow> (string \<Rightarrow> fl) \<Rightarrow> nat \<Rightarrow> frame \<Rightarrow> tables \<Rightarrow> nat \<Rightarrow> session" where
  "update_urgences_data E parse now df T n =
     (case process_urgences_data E parse [] df of
        Inl e \<Rightarrow> (begin_session T n)\<lparr>log := [ErrProcess]\<rparr>
      | Inr (df', a) \<Rightarrow> update_database E now df' T n)"

section \<open>NullBackfillJob: \<open>DataUpdater.fix_null_values\<close>\<close>

definition needs_fix :: "etablissement \<Rightarrow> bool" where
  "needs_fix e = (e_adresse e = None \<or> e_ville e = None \<or> e_type e = None \<or> e_source_id e = None)"

definition or_else :: "'a option \<Rightarrow> 'a \<Rightarrow> 'a option" where
  "or_else v d = (case v of None \<Rightarrow> Some d | Some x \<Rightarrow> Some x)"

definition fix_etablissement :: "env \<Rightarrow> nat \<Rightarrow> etablissement \<Rightarrow> etablissement" where
  "fix_etablissement E now etab =
     (let i = get_etablissement_info E
                (case e_nom_installation_normalise etab of None \<Rightarrow> [] | Some s \<Rightarrow> s)
                (case e_nom_etablissement_normalise etab of None \<Rightarrow> [] | Some s \<Rightarrow> s);
          province = or_else (e_province etab) Quebec;
          province = (case province of
                        Some p \<Rightarrow> (case map_of PROVINCE_MAPPING p of Some p' \<Rightarrow> Some p' | None \<Rightarrow> Some p)
                      | None \<Rightarrow> None)
      in etab\<lparr>e_adresse := or_else (e_adresse etab) (i_adresse i),
              e_ville := or_else (e_ville etab) (i_ville i),
              e_type := or_else (e_type etab) (i_type i),
              e_code_postal := or_else (e_code_postal etab) (i_code_postal i),
              e_province := province,
              e_source_id := or_else (e_source_id etab) (i_source_id i),
              e_point_geo := (case e_point_geo etab of None \<Rightarrow> point_geo_of i | Some p \<Rightarrow> Some p),
              e_date_maj := now\<rparr>)"

definition urgence_needs_fix :: "urgences \<Rightarrow> bool" where
  "urgence_needs_fix u =
     (u_dms_civiere u = None \<or> u_dms_ambulatoire u = None \<or> u_total_patients u = None
      \<or> u_patients_en_attente u = None \<or> u_taux_occupation u = None)"

definition fix_urgence :: "nat \<Rightarrow> urgences \<Rightarrow> urgences" where
  "fix_urgence now urg =
     urg\<lparr>u_dms_civiere := or_else (u_dms_civiere urg) (Fin 0),
         u_dms_ambulatoire := or_else (u_dms_ambulatoire urg) (Fin 0),
         u_total_patients := or_else (u_total_patients urg) (Fin 0),
         u_patients_en_attente := or_else (u_patients_en_attente urg) (Fin 0),
         u_taux_occupation := or_else (u_taux_occupation urg)
            (taux_occupation (u_civieres_fonctionnelles urg) (u_civieres_occupees urg)),
         u_date_maj := Some now\<rparr>"

text \<open>
  The job mutates the selected rows and commits once.  When the store rejects one of
  the rewritten facility rows the \<open>except\<close> branch rolls back and the tables are
  as they were.
\<close>

definition fix_null_values :: "env \<Rightarrow> nat \<Rightarrow> tables \<Rightarrow> tables" where
  "fix_null_values E now T =
     (let etablissements_avec_null = filter needs_fix (etablissements T)
      in if list_all (accepts E) (map (fix_etablissement E now) etablissements_avec_null)
         then T\<lparr>etablissements := map (\<lambda>e. if needs_fix e then fix_etablissement E now e else e)
                                     (etablissements T),
                etat_actuel := map (\<lambda>u. if urgence_needs_fix u then fix_urgence now u else u)
                                  (etat_actuel T)\<rparr>
         else T)"

section \<open>The standalone script: \<open>scripts/data_updater.py\<close>\<close>

text \<open>
  The occupancy rate as \<open>DataUpdater._update_current_data\<close> of the script computes
  it: no rate is stored when there is no functional stretcher, and an absent occupied
  count meets the division.
\<close>

definition script_taux_occupation :: "fl option \<Rightarrow> fl option \<Rightarrow> py_error + fl option" where
  "script_taux_occupation civieres_fonctionnelles civieres_occupees =
     (case civieres_fonctionnelles of
        Some f \<Rightarrow>
          if truthy f \<and> fl_less (Fin 0) f
          then (case civieres_occupees of
                  None \<Rightarrow> Inl TypeError
                | Some oc \<Rightarrow> (case fl_div oc f of
                               Inl e \<Rightarrow> Inl e
                             | Inr q \<Rightarrow> Inr (Some (fl_mul q (Fin 100)))))
          else Inr None
      | None \<Rightarrow> Inr None)"

section \<open>A concrete environment\<close>

text \<open>
  A store as PostgreSQL is for the columns declared in \<open>models.py\<close>: a
  \<open>String(n)\<close> column takes a value of at most \<open>n\<close> characters, or a longer one
  whose characters beyond the first \<open>n\<close> are all blanks, and \<open>nullable=False\<close> on
  the facility name is enforced once the row is formed.  The driver refuses a string
  that holds the character NUL, as a parameter of a query and as a value of a row.  The
  rows are met in the order of their ids.  The reference catalog is empty and
  \<open>ftfy\<close> finds nothing to repair.  This environment serves to run the model on
  concrete feeds.
\<close>

definition fits :: "nat \<Rightarrow> string option \<Rightarrow> bool" where
  "fits n v =
     (case v of None \<Rightarrow> True
      | Some s \<Rightarrow> CHR 0x00 \<notin> set s \<and> list_all (\<lambda>c. c = CHR '' '') (drop n s))"

definition cell_fits :: "nat \<Rightarrow> cell \<Rightarrow> bool" where
  "cell_fits n v = (case v of CStr s \<Rightarrow> fits n (Some s) | _ \<Rightarrow> True)"

definition columns_fit :: "etablissement \<Rightarrow> bool" where
  "columns_fit e =
     (fits 50 (e_source_id e) \<and> fits 50 (e_no_permis_installation e)
      \<and> cell_fits 255 (e_nom_etablissement e) \<and> fits 255 (e_nom_etablissement_normalise e)
      \<and> cell_fits 255 (e_nom_installation e) \<and> fits 255 (e_nom_installation_normalise e)
      \<and> fits 100 (e_type e) \<and> fits 255 (e_adresse e) \<and> fits 10 (e_code_postal e)
      \<and> fits 100 (e_ville e) \<and> fits 50 (e_province e))"

definition columns_ok :: "etablissement \<Rightarrow> bool" where
  "columns_ok e =
     (columns_fit e \<and> e_nom_etablissement e \<noteq> CNone \<and> e_nom_etablissement_normalise e \<noteq> None)"

definition E0 :: env where
  "E0 = \<lparr>ftfy = (\<lambda>s. s), fmt_float = (\<lambda>x. ''nan''), accepts = columns_ok,
         today = ''20250101'', etablissements_info = [],
         formed = columns_fit, refuses = (\<lambda>s. CHR 0x00 \<in> set s),
         heap = e_id, region_heap = r_id\<rparr>"

definition no_tables :: tables where
  "no_tables = \<lparr>etablissements = [], regions = [], etat_actuel = [], historique = []\<rparr>"

text \<open>Feed rows used to run the model.\<close>

definition named_row :: "string \<Rightarrow> string \<Rightarrow> string \<Rightarrow> row" where
  "named_row nom_etablissement nom_installation no_permis =
     [(''nom_etablissement'', CStr nom_etablissement), (''nom_installation'', CStr nom_installation),
      (''no_permis_installation'', CStr no_permis),
      (''civieres_fonctionnelles'', CFloat (Fin 10)), (''civieres_occupees'', CFloat (Fin 5))]"

definition feed :: "row list \<Rightarrow> frame" where
  "feed rs = \<lparr>columns = [''nom_etablissement'', ''nom_installation'', ''no_permis_installation'',
                         ''civieres_fonctionnelles'', ''civieres_occupees''], rows = rs\<rparr>"

text \<open>A registry with one facility that has no address and one current state without durations.\<close>

definition facility_without_address :: etablissement where
  "facility_without_address =
     \<lparr>e_id = 1, e_source_id = Some ''ODHF-000001'', e_no_permis_installation = Some ''51'',
      e_nom_etablissement = CStr ''CISSS'', e_nom_etablissement_normalise = Some ''cisss'',
      e_nom_installation = CStr ''Hull'', e_nom_installation_normalise = Some ''hull'',
      e_type = Some Hopital, e_adresse = None, e_code_postal = Some ''J8Y'',
      e_ville = Some ''Gatineau'', e_province = Some ''QC'', e_region_id = None,
      e_point_geo = None, e_date_maj = 3\<rparr>"

definition state_without_durations :: urgences where
  "state_without_durations =
     \<lparr>u_etablissement_id = 1, u_civieres_fonctionnelles = Some (Fin 10),
      u_civieres_occupees = Some (Fin 5), u_patients_24h = None, u_patients_48h = None,
      u_total_patients = Some (Fin 4), u_patients_en_attente = None, u_dms_civiere = None,
      u_dms_ambulatoire = None, u_taux_occupation = None, u_date_extraction = Some 3,
      u_date_maj = Some 3, u_statut_validation = None\<rparr>"

definition incomplete_tables :: tables where
  "incomplete_tables =
     \<lparr>etablissements = [facility_without_address], regions = [],
      etat_actuel = [state_without_durations], historique = []\<rparr>"

section \<open>Theorems\<close>

lemma invalid_mask_within_range:
  "invalid_mask parse c (Fin lo) (Fin hi) r = (\<not> within_range parse c lo hi r)"
  by (cases "to_numeric parse (cell_at r c)")
     (auto simp: invalid_mask_def within_range_def isna_def Let_def)

lemma invalid_mask_fun:
  "invalid_mask parse c (Fin lo) (Fin hi) = (\<lambda>r. \<not> within_range parse c lo hi r)"
  by (rule ext) (rule invalid_mask_within_range)

lemma coerce_column_other:
  "c' \<noteq> c \<Longrightarrow> cell_at (coerce_column parse c r) c' = cell_at r c'"
  by (simp add: cell_at_def coerce_column_def update_conv')

lemma coerce_column_same:
  "cell_at (coerce_column parse c r) c = CFloat (to_numeric parse (cell_at r c))"
  by (simp add: cell_at_def coerce_column_def update_conv')

text \<open>
  C8.  With finite bounds, \<open>validate_numeric_range\<close> never fails.  When the
  column is in the frame it keeps, in order, exactly the rows whose field parses as a
  number within the bounds (the field now holding that number), and when at least one
  row is dropped it logs one anomaly that counts the dropped rows and dumps them.  When
  the column is absent it logs that and returns the frame unchanged.
\<close>

theorem validate_numeric_range_keeps_within_range:
  "validate_numeric_range parse anomalies df c (Fin lo) (Fin hi) =
     (if c \<in> set (columns df)
      then (df\<lparr>rows := map (coerce_column parse c)
                       (filter (within_range parse c lo hi) (rows df))\<rparr>,
            (let dropped = filter (\<lambda>r. \<not> within_range parse c lo hi r) (rows df)
             in if dropped = [] then anomalies
                else anomalies @ [\<lparr>atype = ''validation'',
                                   amessage = OutOfRange (length dropped) c,
                                   adata = Some (map (coerce_column parse c) dropped)\<rparr>]))
      else (df, anomalies @ [\<lparr>atype = ''validation'', amessage = ColumnNotFound c,
                               adata = None\<rparr>]))"
  by (simp add: validate_numeric_range_def invalid_mask_fun log_anomaly_def Let_def)

theorem validate_numeric_range_keeps_within_range_witness:
  "validate_numeric_range (\<lambda>s. if s = ''12'' then Fin 12 else NaN) []
     \<lparr>columns = [''n''],
      rows = [[(''n'', CStr ''12'')], [(''n'', CStr ''abc'')], [(''n'', CFloat (Fin 2000))]]\<rparr>
     ''n'' (Fin 0) (Fin 1000)
   = (\<lparr>columns = [''n''], rows = [[(''n'', CFloat (Fin 12))]]\<rparr>,
      [\<lparr>atype = ''validation'', amessage = OutOfRange 2 ''n'',
        adata = Some [[(''n'', CFloat NaN)], [(''n'', CFloat (Fin 2000))]]\<rparr>])
   \<and> validate_numeric_range (\<lambda>s. NaN) [] \<lparr>columns = [''n''], rows = [[(''n'', CNone)]]\<rparr>
        ''m'' (Fin 0) (Fin 1000)
     = (\<lparr>columns = [''n''], rows = [[(''n'', CNone)]]\<rparr>,
        [\<lparr>atype = ''validation'', amessage = ColumnNotFound ''m'', adata = None\<rparr>])"
  using validate_numeric_range_keeps_within_range
          [of "\<lambda>s. if s = ''12'' then Fin 12 else NaN" "[]"
              "\<lparr>columns = [''n''],
                rows = [[(''n'', CStr ''12'')], [(''n'', CStr ''abc'')],
                        [(''n'', CFloat (Fin 2000))]]\<rparr>" "''n''" 0 1000]
        validate_numeric_range_keeps_within_range
          [of "\<lambda>s. NaN" "[]" "\<lparr>columns = [''n''], rows = [[(''n'', CNone)]]\<rparr>" "''m''" 0 1000]
  by (simp add: within_range_def cell_at_def coerce_column_def)

subsection \<open>Occupancy rate\<close>

lemma taux_occupation_finite:
  "taux_occupation (Some (Fin f)) (Some (Fin oc)) = (if 0 < f then Fin (oc / f * 100) else Fin 0)"
  by (simp add: taux_occupation_def truthy_def)

lemma taux_occupation_absent:
  "taux_occupation None oc = Fin 0" "taux_occupation f None = Fin 0"
  by (simp_all add: taux_occupation_def split: option.splits)

text \<open>
  C3.  The occupancy rate that \<open>scripts/data_updater.py\<close> stores for a row with no
  functional stretcher and three occupied ones is \<open>None\<close>, where
  \<open>app/core/scheduler.py\<close> stores \<open>0\<close> for the same row.
\<close>

theorem script_occupancy_is_null_without_functional_stretchers:
  "script_taux_occupation (Some (Fin 0)) (Some (Fin 3)) = Inr None
   \<and> taux_occupation (Some (Fin 0)) (Some (Fin 3)) = Fin 0"
  by (simp add: script_taux_occupation_def taux_occupation_def truthy_def)

subsection \<open>Lengths of stay\<close>

lemma coerce_dms_examples:
  "coerce_dms (CStr ''2:30'') = (Fin (5 / 2), False)"
  "coerce_dms (CStr ''7,5'') = (Fin (15 / 2), False)"
  "coerce_dms (CStr ''abc'') = (Fin 0, True)"
  by code_simp+

text \<open>
  C7.  A feed in which a length of stay reads \<open>2:30\<close>, or \<open>abc\<close>, does not reach
  \<open>_update_current_data\<close>: \<open>process_urgences_data\<close> raises on that cell, the cycle
  logs the error and no row of the feed is written, whatever the store held.
\<close>

theorem duration_string_aborts_cycle:
  "update_urgences_data E parse now
     \<lparr>columns = [''nom_installation'', ''dms_civiere''],
      rows = [[(''nom_installation'', CStr ''A''), (''dms_civiere'', CStr ''3,5'')],
              [(''nom_installation'', CStr ''B''), (''dms_civiere'', CStr ''2:30'')]]\<rparr> T n
     = (begin_session T n)\<lparr>log := [ErrProcess]\<rparr>
   \<and> update_urgences_data E parse now
     \<lparr>columns = [''nom_installation'', ''dms_civiere''],
      rows = [[(''nom_installation'', CStr ''A''), (''dms_civiere'', CStr ''3,5'')],
              [(''nom_installation'', CStr ''B''), (''dms_civiere'', CStr ''abc'')]]\<rparr> T n
     = (begin_session T n)\<lparr>log := [ErrProcess]\<rparr>"
  by code_simp

subsection \<open>Failure of one row\<close>

text \<open>
  C5.  On an empty registry a feed of one row commits one facility.  When a second row
  follows whose permit number has 51 characters, the store rejects the new facility,
  \<open>_find_etablissement\<close> rolls the session back, and the cycle commits nothing: the
  writes of the first row are gone.
\<close>

theorem rejected_row_discards_earlier_rows:
  "map e_id (etablissements (committed
      (update_database E0 7 (feed [named_row ''CH A'' ''A'' ''1'']) no_tables 1))) = [1]
   \<and> committed (update_database E0 7
        (feed [named_row ''CH A'' ''A'' ''1'', named_row ''CH B'' ''B'' (replicate 51 (CHR ''9''))])
        no_tables 1) = no_tables"
  by code_simp

subsection \<open>Matching by name\<close>

text \<open>
  C2.  A registry holds one facility whose installation key is \<open>axb\<close>.  A row whose
  installation is named \<open>a_b\<close> resolves to it, and no facility is created, although
  \<open>a_b\<close> is not a substring of \<open>axb\<close>: \<open>_\<close> passes \<open>normalize_text\<close> and is a
  wildcard of \<open>ILIKE\<close>.
\<close>

theorem underscore_matches_any_character:
  "map e_nom_installation (etablissements (committed
      (update_database E0 8 (feed [named_row ''CH 2'' ''a_b'' []])
         (committed (update_database E0 7 (feed [named_row ''CH 1'' ''axb'' []]) no_tables 1)) 2)))
     = [CStr ''axb'']
   \<and> \<not> contains ''axb'' ''a_b''"
  by code_simp

subsection \<open>Facility resolution\<close>

lemma first_Some: "first P xs = Some x \<Longrightarrow> x \<in> set xs \<and> P x"
  by (induction xs) (auto simp: first_def split: if_splits)

lemma first_None: "first P xs = None \<longleftrightarrow> (\<forall>x\<in>set xs. \<not> P x)"
  by (induction xs) (auto simp: first_def)

lemma first_append:
  "first P (xs @ ys) = (case first P xs of Some x \<Rightarrow> Some x | None \<Rightarrow> first P ys)"
  by (induction xs) (auto simp: first_def)

lemma py_strip_Nil [simp]: "py_strip [] = []"
  by (simp add: py_strip_def)

lemma least_by_mem: "least_by rank m xs \<in> set (m # xs)"
  by (induction xs arbitrary: m) auto

lemma first_by_Some: "first_by rank P xs = Some x \<Longrightarrow> x \<in> set xs \<and> P x"
proof -
  assume a: "first_by rank P xs = Some x"
  then obtain y ys where f: "filter P xs = y # ys" and x: "x = least_by rank y ys"
    by (auto simp: first_by_def split: list.splits)
  have "x \<in> set (filter P xs)"
    unfolding f x by (rule least_by_mem)
  then show ?thesis by simp
qed

lemma first_by_None: "first_by rank P xs = None \<longleftrightarrow> (\<forall>x\<in>set xs. \<not> P x)"
proof -
  have "first_by rank P xs = None \<longleftrightarrow> filter P xs = []"
    by (simp add: first_by_def split: list.splits)
  then show ?thesis
    by (simp add: filter_empty_conv)
qed

lemma first_by_single: "filter P xs = [x] \<Longrightarrow> first_by rank P xs = Some x"
  by (simp add: first_by_def)

lemma lookup_mem: "lookup E s p i n = Inr (Some e) \<Longrightarrow> e \<in> set (etablissements (visible s))"
  by (auto simp: lookup_def query_etablissement_def split: if_splits sum.splits dest: first_by_Some)

lemma lookup_permit:
  "py_strip p \<noteq> [] \<Longrightarrow> \<not> refuses E p \<Longrightarrow>
   first_by (heap E) (\<lambda>e. e_no_permis_installation e = Some p) (etablissements (visible s)) = Some e \<Longrightarrow>
   lookup E s p i n = Inr (Some e)"
  by (auto simp: lookup_def query_etablissement_def)

lemma lookup_None_permit:
  "lookup E s p i n = Inr None \<Longrightarrow> py_strip p \<noteq> [] \<Longrightarrow>
   \<not> refuses E p
   \<and> first_by (heap E) (\<lambda>e. e_no_permis_installation e = Some p) (etablissements (visible s)) = None"
  by (auto simp: lookup_def query_etablissement_def split: if_splits sum.splits)


lemma flush_visible:
  "flush s = Inr s' \<Longrightarrow>
     etablissements (visible s') = etablissements (visible s) \<and> regions (visible s') = regions (visible s)
   \<and> etat_actuel (visible s') = etat_actuel (visible s) @ pending_etat s
   \<and> historique (visible s') = historique (visible s) @ pending_hist s
   \<and> pending_etat s' = [] \<and> pending_hist s' = [] \<and> committed s' = committed s
   \<and> next_id s' = next_id s \<and> log s' = log s"
  by (auto simp: flush_def Let_def split: if_splits)


lemma as_stored_id [simp]: "e_id (as_stored e) = e_id e"
  by (simp add: as_stored_def)


lemma find_etablissement_cases:
  assumes "find_etablissement E s now r = (s1, Some e)"
  shows "(s1 = s \<and> lookup E s (py_str E (row_get r ''no_permis_installation'' (CStr [])))
             (normalize_text (ftfy E) (fix_text_encoding (ftfy E) (row_get r ''nom_installation'' (CStr []))) True)
             (normalize_text (ftfy E) (fix_text_encoding (ftfy E) (row_get r ''nom_etablissement'' (CStr []))) True)
           = Inr (Some e))
       \<or> (lookup E s (py_str E (row_get r ''no_permis_installation'' (CStr [])))
             (normalize_text (ftfy E) (fix_text_encoding (ftfy E) (row_get r ''nom_installation'' (CStr []))) True)
             (normalize_text (ftfy E) (fix_text_encoding (ftfy E) (row_get r ''nom_etablissement'' (CStr []))) True)
           = Inr None
          \<and> e = as_stored (new_etablissement E s now r)
          \<and> etablissements (visible s1) = etablissements (visible s) @ [e])"
  using assms
  by (auto simp: find_etablissement_def Let_def flush_def split: if_splits option.splits sum.splits)

text \<open>
  C4.  Round trip on the permit number.  When a row with a non-blank permit number of
  at most 50 characters made \<open>_find_etablissement\<close> create a facility, ingesting the
  same row again resolves to that facility and leaves the session as it is, so no second
  facility is created.  This holds for every later state of the registry that extends
  the one after the creation by facilities with other permit numbers, in whatever order
  the store meets the rows.
\<close>

theorem permit_round_trip_when_stored_as_read:
  assumes created: "find_etablissement E s now r = (s1, Some e)"
      and new: "e \<notin> set (etablissements (visible s))"
      and permit: "py_strip (py_str E (row_get r ''no_permis_installation'' (CStr []))) \<noteq> []"
      and short: "length (py_str E (row_get r ''no_permis_installation'' (CStr []))) \<le> 50"
      and later: "etablissements (visible s2) = etablissements (visible s1) @ extra"
      and others: "\<forall>x\<in>set extra.
                     e_no_permis_installation x
                       \<noteq> Some (py_str E (row_get r ''no_permis_installation'' (CStr [])))"
  shows "find_etablissement E s2 now' r = (s2, Some e)"
proof -
  let ?p = "py_str E (row_get r ''no_permis_installation'' (CStr []))"
  let ?i = "normalize_text (ftfy E) (fix_text_encoding (ftfy E) (row_get r ''nom_installation'' (CStr []))) True"
  let ?n = "normalize_text (ftfy E) (fix_text_encoding (ftfy E) (row_get r ''nom_etablissement'' (CStr []))) True"
  let ?P = "\<lambda>e'. e_no_permis_installation e' = Some ?p"
  from find_etablissement_cases [OF created] new
  have none: "lookup E s ?p ?i ?n = Inr None"
    and e: "e = as_stored (new_etablissement E s now r)"
    and es1: "etablissements (visible s1) = etablissements (visible s) @ [e]"
    by (auto dest: lookup_mem)
  from lookup_None_permit [OF none permit]
  have sent: "\<not> refuses E ?p"
    and "first_by (heap E) ?P (etablissements (visible s)) = None"
    by simp_all
  then have before: "filter ?P (etablissements (visible s)) = []"
    by (simp add: first_by_None filter_empty_conv)
  have kept: "?P e"
    using short by (simp add: e as_stored_def varchar_def new_etablissement_def Let_def)
  have after: "filter ?P extra = []"
    using others by (simp add: filter_empty_conv)
  have "filter ?P (etablissements (visible s2)) = [e]"
    using before kept after by (simp add: later es1)
  then have "first_by (heap E) ?P (etablissements (visible s2)) = Some e"
    by (rule first_by_single)
  with permit sent have "lookup E s2 ?p ?i ?n = Inr (Some e)"
    by (rule lookup_permit)
  then show ?thesis
    by (simp add: find_etablissement_def Let_def)
qed

theorem permit_round_trip_when_stored_as_read_witness:
  "let s0 = begin_session no_tables 1;
       r0 = named_row ''CH A'' ''A'' ''X123'';
       s1 = fst (find_etablissement E0 s0 7 r0);
       e = as_stored (new_etablissement E0 s0 7 r0)
   in find_etablissement E0 s0 7 r0 = (s1, Some e)
      \<and> e \<notin> set (etablissements (visible s0))
      \<and> py_strip (py_str E0 (row_get r0 ''no_permis_installation'' (CStr []))) \<noteq> []
      \<and> length (py_str E0 (row_get r0 ''no_permis_installation'' (CStr []))) \<le> 50
      \<and> find_etablissement E0 s1 8 r0 = (s1, Some e)"
proof -
  define s0 where "s0 = begin_session no_tables 1"
  define r0 where "r0 = named_row ''CH A'' ''A'' ''X123''"
  define e where "e = as_stored (new_etablissement E0 s0 7 r0)"
  define s1 where "s1 = fst (find_etablissement E0 s0 7 r0)"
  have "snd (find_etablissement E0 s0 7 r0) = Some e"
    unfolding s0_def r0_def e_def by code_simp
  then have created: "find_etablissement E0 s0 7 r0 = (s1, Some e)"
    by (simp add: s1_def prod_eq_iff)
  have new: "e \<notin> set (etablissements (visible s0))"
    by (simp add: s0_def begin_session_def no_tables_def)
  have permit: "py_strip (py_str E0 (row_get r0 ''no_permis_installation'' (CStr []))) \<noteq> []"
    unfolding r0_def by code_simp
  have short: "length (py_str E0 (row_get r0 ''no_permis_installation'' (CStr []))) \<le> 50"
    unfolding r0_def by code_simp
  have later: "etablissements (visible s1) = etablissements (visible s1) @ []"
    by simp
  have others: "\<forall>x\<in>set [].
                  e_no_permis_installation x
                    \<noteq> Some (py_str E0 (row_get r0 ''no_permis_installation'' (CStr [])))"
    by simp
  from permit_round_trip_when_stored_as_read [OF created new permit short later others, of 8]
       created new permit short
  show ?thesis
    by (simp add: s0_def r0_def e_def s1_def Let_def)
qed

text \<open>
  A row without a name whose permit number is fifty digits and a blank.  The store takes
  the new facility and keeps fifty characters of the permit.  The same row, ingested
  again, asks for the permit as read, finds no facility, and a second one is created.
\<close>

theorem cut_permit_is_not_found_again:
  "let r0 = [(''nom_etablissement'', CStr ''---''), (''nom_installation'', CStr '' ''),
             (''no_permis_installation'', CStr (replicate 50 (CHR ''9'') @ '' ''))];
       first_call = find_etablissement E0 (begin_session no_tables 1) 7 r0;
       second_call = find_etablissement E0 (fst first_call) 8 r0
   in py_strip (py_str E0 (row_get r0 ''no_permis_installation'' (CStr []))) \<noteq> []
      \<and> map_option e_id (snd first_call) = Some 1
      \<and> map_option e_id (snd second_call) = Some 2
      \<and> map e_id (etablissements (visible (fst second_call))) = [1, 2]
      \<and> map e_no_permis_installation (etablissements (visible (fst second_call)))
          = [Some (replicate 50 (CHR ''9'')), Some (replicate 50 (CHR ''9''))]"
  by code_simp



subsection \<open>Archival before overwrite\<close>

lemma replace_first_keeps:
  "x \<in> set xs \<Longrightarrow> x \<in> set (replace_first P y xs) \<or> first P xs = Some x"
  by (induction xs) (auto simp: first_def)

lemma apply_measurement_found:
  assumes "current_of s i = Some c"
  shows "apply_measurement s i r d now =
           s\<lparr>pending_hist := pending_hist s @ [c],
             visible := (visible s)\<lparr>etat_actuel :=
               replace_first (\<lambda>u. u_etablissement_id u = i) (fst (updated_values c r d now))
                 (etat_actuel (visible s))\<rparr>,
             log := log s @ snd (updated_values c r d now)\<rparr>"
  using assms
  by (simp add: apply_measurement_def archive_current_data_def update_current_data_def
        current_of_def split_beta Let_def)

lemma apply_measurement_absent:
  assumes "current_of s i = None"
  shows "apply_measurement s i r d now =
           s\<lparr>pending_etat := pending_etat s @ [fst (updated_values (blank_urgences i) r d now)],
             log := log s @ snd (updated_values (blank_urgences i) r d now)\<rparr>"
  using assms
  by (simp add: apply_measurement_def archive_current_data_def update_current_data_def
        current_of_def split_beta Let_def)

lemma apply_measurement_keeps:
  assumes "c \<in> set (etat_actuel (visible s)) \<or> c \<in> set (historique (visible s)) \<or> c \<in> set (pending_hist s)"
  shows "c \<in> set (etat_actuel (visible (apply_measurement s i r d now)))
       \<or> c \<in> set (historique (visible (apply_measurement s i r d now)))
       \<or> c \<in> set (pending_hist (apply_measurement s i r d now))"
proof (cases "current_of s i")
  case None
  then show ?thesis using assms by (simp add: apply_measurement_absent)
next
  case (Some c')
  show ?thesis
    using assms replace_first_keeps [of c "etat_actuel (visible s)" "\<lambda>u. u_etablissement_id u = i"
        "fst (updated_values c' r d now)"] Some
    by (auto simp: apply_measurement_found [OF Some] current_of_def)
qed

lemma apply_measurement_frame:
  "committed (apply_measurement s i r d now) = committed s
   \<and> historique (visible (apply_measurement s i r d now)) = historique (visible s)"
  by (cases "current_of s i") (simp_all add: apply_measurement_absent apply_measurement_found)

lemma find_etablissement_keeps:
  assumes "find_etablissement E s now r = (s1, x)"
      and "c \<in> set (etat_actuel (committed s))"
      and "c \<in> set (etat_actuel (visible s)) \<or> c \<in> set (historique (visible s)) \<or> c \<in> set (pending_hist s)"
  shows "c \<in> set (etat_actuel (visible s1)) \<or> c \<in> set (historique (visible s1)) \<or> c \<in> set (pending_hist s1)"
  using assms
  by (auto simp: find_etablissement_def Let_def flush_def rollback_def
           split: if_splits option.splits sum.splits)

lemma find_etablissement_frame:
  assumes "find_etablissement E s now r = (s1, x)"
      and "\<exists>new. historique (visible s) = historique (committed s) @ new"
  shows "committed s1 = committed s \<and> (\<exists>new. historique (visible s1) = historique (committed s1) @ new)"
  using assms
  by (auto simp: find_etablissement_def Let_def flush_def rollback_def
           split: if_splits option.splits sum.splits)

lemma process_rows_history:
  assumes "\<exists>new. historique (visible s) = historique (committed s) @ new"
  shows "committed (process_rows E now rs s) = committed s
       \<and> (\<exists>new. historique (visible (process_rows E now rs s)) = historique (committed s) @ new)"
  using assms
proof (induction rs arbitrary: s)
  case Nil
  then show ?case by simp
next
  case (Cons r rs)
  obtain s1 x where f: "find_etablissement E s now r = (s1, x)"
    by (cases "find_etablissement E s now r")
  note fr = find_etablissement_frame [OF f Cons.prems]
  have c1: "committed s1 = committed s"
    using fr by (rule conjunct1)
  have h1: "\<exists>new. historique (visible s1) = historique (committed s1) @ new"
    using fr by (rule conjunct2)
  show ?case
  proof (cases x)
    case None
    with f have eq: "process_rows E now (r # rs) s = process_rows E now rs s1" by simp
    show ?thesis
      unfolding eq using Cons.IH [OF h1] by (simp only: c1)
  next
    case (Some e)
    let ?s2 = "apply_measurement s1 (e_id e) r now now"
    from f Some have eq: "process_rows E now (r # rs) s = process_rows E now rs ?s2" by simp
    have c2: "committed ?s2 = committed s"
      by (simp add: apply_measurement_frame c1)
    have h2: "\<exists>new. historique (visible ?s2) = historique (committed ?s2) @ new"
      using h1 by (simp add: apply_measurement_frame)
    show ?thesis
      unfolding eq using Cons.IH [OF h2] by (simp only: c2)
  qed
qed

lemma process_rows_keeps:
  assumes "c \<in> set (etat_actuel (committed s))"
      and "c \<in> set (etat_actuel (visible s)) \<or> c \<in> set (historique (visible s)) \<or> c \<in> set (pending_hist s)"
      and "\<exists>new. historique (visible s) = historique (committed s) @ new"
  shows "c \<in> set (etat_actuel (visible (process_rows E now rs s)))
       \<or> c \<in> set (historique (visible (process_rows E now rs s)))
       \<or> c \<in> set (pending_hist (process_rows E now rs s))"
  using assms
proof (induction rs arbitrary: s)
  case Nil
  then show ?case by simp
next
  case (Cons r rs)
  obtain s1 x where f: "find_etablissement E s now r = (s1, x)"
    by (cases "find_etablissement E s now r")
  note k1 = find_etablissement_keeps [OF f Cons.prems(1) Cons.prems(2)]
  note fr = find_etablissement_frame [OF f Cons.prems(3)]
  have c1: "committed s1 = committed s"
    using fr by (rule conjunct1)
  have h1: "\<exists>new. historique (visible s1) = historique (committed s1) @ new"
    using fr by (rule conjunct2)
  have m1: "c \<in> set (etat_actuel (committed s1))"
    using Cons.prems(1) by (simp only: c1)
  show ?case
  proof (cases x)
    case None
    with f have eq: "process_rows E now (r # rs) s = process_rows E now rs s1" by simp
    show ?thesis
      unfolding eq using m1 k1 h1 by (rule Cons.IH)
  next
    case (Some e)
    let ?s2 = "apply_measurement s1 (e_id e) r now now"
    from f Some have eq: "process_rows E now (r # rs) s = process_rows E now rs ?s2" by simp
    have m2: "c \<in> set (etat_actuel (committed ?s2))"
      using m1 by (simp add: apply_measurement_frame)
    have h2: "\<exists>new. historique (visible ?s2) = historique (committed ?s2) @ new"
      using h1 by (simp add: apply_measurement_frame)
    have k2: "c \<in> set (etat_actuel (visible ?s2)) \<or> c \<in> set (historique (visible ?s2))
              \<or> c \<in> set (pending_hist ?s2)"
      using k1 by (rule apply_measurement_keeps)
    show ?thesis
      unfolding eq using m2 k2 h2 by (rule Cons.IH)
  qed
qed

lemma commit_cases:
  "(\<exists>s'. commit s = Inr s' \<and> committed s' = visible s'
          \<and> etat_actuel (visible s') = etat_actuel (visible s) @ pending_etat s
          \<and> historique (visible s') = historique (visible s) @ pending_hist s)
   \<or> (\<exists>e. commit s = Inl e)"
  by (auto simp: commit_def flush_def Let_def)

lemma update_database_keeps:
  assumes "c \<in> set (etat_actuel T)"
  shows "c \<in> set (etat_actuel (committed (update_database E now df T n)))
       \<or> c \<in> set (historique (committed (update_database E now df T n)))"
proof -
  let ?s = "process_rows E now (rows df) (begin_session T n)"
  have h0: "\<exists>new. historique (visible (begin_session T n)) = historique (committed (begin_session T n)) @ new"
    by (simp add: begin_session_def)
  have m0: "c \<in> set (etat_actuel (committed (begin_session T n)))"
    using assms by (simp add: begin_session_def)
  have k0: "c \<in> set (etat_actuel (visible (begin_session T n)))
          \<or> c \<in> set (historique (visible (begin_session T n)))
          \<or> c \<in> set (pending_hist (begin_session T n))"
    using assms by (simp add: begin_session_def)
  have com: "committed ?s = T"
    using process_rows_history [OF h0, of E now "rows df"] by (simp add: begin_session_def)
  note k = process_rows_keeps [OF m0 k0 h0, of E now "rows df"]
  from commit_cases [of ?s] show ?thesis
  proof (elim disjE exE conjE)
    fix s' assume "commit ?s = Inr s'" "committed s' = visible s'"
      "etat_actuel (visible s') = etat_actuel (visible ?s) @ pending_etat ?s"
      "historique (visible s') = historique (visible ?s) @ pending_hist ?s"
    then show ?thesis using k by (auto simp: update_database_def Let_def)
  next
    fix e assume "commit ?s = Inl e"
    then show ?thesis using assms com by (simp add: update_database_def Let_def rollback_def)
  qed
qed

lemma update_database_history:
  "\<exists>new. historique (committed (update_database E now df T n)) = historique T @ new"
proof -
  let ?s = "process_rows E now (rows df) (begin_session T n)"
  have h0: "\<exists>new. historique (visible (begin_session T n)) = historique (committed (begin_session T n)) @ new"
    by (simp add: begin_session_def)
  from process_rows_history [OF h0, of E now "rows df"]
  have com: "committed ?s = T" and h: "\<exists>new. historique (visible ?s) = historique T @ new"
    by (simp_all add: begin_session_def)
  from commit_cases [of ?s] show ?thesis
  proof (elim disjE exE conjE)
    fix s' assume "commit ?s = Inr s'" "committed s' = visible s'"
      "etat_actuel (visible s') = etat_actuel (visible ?s) @ pending_etat ?s"
      "historique (visible s') = historique (visible ?s) @ pending_hist ?s"
    then show ?thesis using h by (auto simp: update_database_def Let_def)
  next
    fix e assume "commit ?s = Inl e"
    then show ?thesis using com by (simp add: update_database_def Let_def rollback_def)
  qed
qed

text \<open>
  C1.  When \<open>ApplyMeasurement\<close> runs on a facility that has a current state, the
  state as it stood is added to the history rows of the transaction, unchanged in every
  field, and the current row is then written in place; the history rows already sent
  and the committed tables are not touched.  Over a whole cycle of
  \<open>_update_database\<close>, whatever the feed and whether the commit succeeds or the
  cycle is rolled back, every current state that was committed before the cycle is
  afterwards either still the current state or a row of the committed history, and the
  committed history only grows at its end.
\<close>

theorem archive_before_overwrite:
  "(current_of s i = Some c \<longrightarrow>
        pending_hist (apply_measurement s i r d t) = pending_hist s @ [c]
      \<and> etat_actuel (visible (apply_measurement s i r d t))
          = replace_first (\<lambda>u. u_etablissement_id u = i) (fst (updated_values c r d t))
              (etat_actuel (visible s))
      \<and> historique (visible (apply_measurement s i r d t)) = historique (visible s)
      \<and> committed (apply_measurement s i r d t) = committed s)
   \<and> (\<forall>c0\<in>set (etat_actuel T).
          c0 \<in> set (etat_actuel (committed (update_database E now df T n)))
        \<or> c0 \<in> set (historique (committed (update_database E now df T n))))
   \<and> (\<exists>new. historique (committed (update_database E now df T n)) = historique T @ new)"
proof (intro conjI impI ballI)
  assume "current_of s i = Some c"
  note eq = apply_measurement_found [OF this, of r d t]
  show "pending_hist (apply_measurement s i r d t) = pending_hist s @ [c]"
    by (simp add: eq)
  show "etat_actuel (visible (apply_measurement s i r d t))
          = replace_first (\<lambda>u. u_etablissement_id u = i) (fst (updated_values c r d t))
              (etat_actuel (visible s))"
    by (simp add: eq)
  show "historique (visible (apply_measurement s i r d t)) = historique (visible s)"
    by (simp add: eq)
  show "committed (apply_measurement s i r d t) = committed s"
    by (simp add: eq)
next
  fix c0 assume "c0 \<in> set (etat_actuel T)"
  then show "c0 \<in> set (etat_actuel (committed (update_database E now df T n)))
        \<or> c0 \<in> set (historique (committed (update_database E now df T n)))"
    by (rule update_database_keeps)
next
  show "\<exists>new. historique (committed (update_database E now df T n)) = historique T @ new"
    by (rule update_database_history)
qed

theorem archive_before_overwrite_witness:
  "let T = committed (update_database E0 7 (feed [named_row ''CH A'' ''A'' ''1'']) no_tables 1);
       r = [(''nom_etablissement'', CStr ''CH A''), (''nom_installation'', CStr ''A''),
            (''no_permis_installation'', CStr ''1''),
            (''civieres_fonctionnelles'', CFloat (Fin 10)), (''civieres_occupees'', CFloat (Fin 8))];
       S = committed (update_database E0 8 (feed [r]) T 2);
       c0 = hd (etat_actuel T)
   in c0 \<in> set (etat_actuel T)
      \<and> current_of (begin_session T 2) 1 = Some c0
      \<and> c0 \<notin> set (etat_actuel S)
      \<and> c0 \<in> set (historique S)
      \<and> pending_hist (apply_measurement (begin_session T 2) 1 r 8 8) = [c0]"
proof -
  define T where "T = committed (update_database E0 7 (feed [named_row ''CH A'' ''A'' ''1'']) no_tables 1)"
  define r :: row where
    "r = [(''nom_etablissement'', CStr ''CH A''), (''nom_installation'', CStr ''A''),
          (''no_permis_installation'', CStr ''1''),
          (''civieres_fonctionnelles'', CFloat (Fin 10)), (''civieres_occupees'', CFloat (Fin 8))]"
  define S where "S = committed (update_database E0 8 (feed [r]) T 2)"
  define c0 where "c0 = hd (etat_actuel T)"
  have a: "c0 \<in> set (etat_actuel T)"
    unfolding c0_def T_def by code_simp
  have b: "current_of (begin_session T 2) 1 = Some c0"
    unfolding c0_def T_def by code_simp
  have c: "c0 \<notin> set (etat_actuel S)"
    unfolding c0_def S_def r_def T_def by code_simp
  have p: "pending_hist (begin_session T 2) = []"
    by (simp add: begin_session_def)
  note cycle = archive_before_overwrite [of "begin_session T 2" 1 c0 r 8 8 T E0 8 "feed [r]" 2]
  have "c0 \<in> set (etat_actuel T)
      \<and> current_of (begin_session T 2) 1 = Some c0
      \<and> c0 \<notin> set (etat_actuel S)
      \<and> c0 \<in> set (historique S)
      \<and> pending_hist (apply_measurement (begin_session T 2) 1 r 8 8) = [c0]"
    using a b c p cycle unfolding S_def by auto
  then show ?thesis
    unfolding Let_def T_def r_def S_def c0_def .
qed

subsection \<open>Backfill of absent values\<close>

lemma fix_etablissement_complete: "\<not> needs_fix (fix_etablissement E now e)"
  by (simp add: needs_fix_def fix_etablissement_def or_else_def Let_def split: option.splits)

lemma fix_urgence_complete: "\<not> urgence_needs_fix (fix_urgence now u)"
  by (simp add: urgence_needs_fix_def fix_urgence_def or_else_def split: option.splits)

lemma fix_null_values_accepted:
  assumes "list_all (accepts E) (map (fix_etablissement E now) (filter needs_fix (etablissements T)))"
  shows "fix_null_values E now T =
           T\<lparr>etablissements := map (\<lambda>e. if needs_fix e then fix_etablissement E now e else e)
                                   (etablissements T),
              etat_actuel := map (\<lambda>u. if urgence_needs_fix u then fix_urgence now u else u)
                                (etat_actuel T)\<rparr>"
  using assms by (simp add: fix_null_values_def Let_def)

lemma fix_null_values_rejected:
  assumes "\<not> list_all (accepts E) (map (fix_etablissement E now) (filter needs_fix (etablissements T)))"
  shows "fix_null_values E now T = T"
  using assms by (simp add: fix_null_values_def Let_def)

lemma fix_null_values_nothing_selected:
  assumes "\<forall>e\<in>set (etablissements T). \<not> needs_fix e"
      and "\<forall>u\<in>set (etat_actuel T). \<not> urgence_needs_fix u"
  shows "fix_null_values E now T = T"
proof -
  have "filter needs_fix (etablissements T) = []"
    using assms(1) by (simp add: filter_empty_conv)
  moreover have "map (\<lambda>e. if needs_fix e then fix_etablissement E now e else e) (etablissements T)
                 = etablissements T"
    using assms(1) by (simp add: map_idI)
  moreover have "map (\<lambda>u. if urgence_needs_fix u then fix_urgence now u else u) (etat_actuel T)
                 = etat_actuel T"
    using assms(2) by (simp add: map_idI)
  ultimately show ?thesis
    by (simp add: fix_null_values_def Let_def)
qed

lemma fix_null_values_idem:
  assumes "list_all (accepts E) (map (fix_etablissement E now) (filter needs_fix (etablissements T)))"
  shows "fix_null_values E' now' (fix_null_values E now T) = fix_null_values E now T"
proof (rule fix_null_values_nothing_selected)
  show "\<forall>e\<in>set (etablissements (fix_null_values E now T)). \<not> needs_fix e"
    by (auto simp: fix_null_values_accepted [OF assms] fix_etablissement_complete)
  show "\<forall>u\<in>set (etat_actuel (fix_null_values E now T)). \<not> urgence_needs_fix u"
    by (auto simp: fix_null_values_accepted [OF assms] fix_urgence_complete)
qed

lemma fix_etablissement_fields:
  "(fix_etablissement E now e)\<lparr>e_adresse := e_adresse e, e_ville := e_ville e, e_type := e_type e,
       e_code_postal := e_code_postal e, e_source_id := e_source_id e,
       e_point_geo := e_point_geo e, e_province := e_province e, e_date_maj := e_date_maj e\<rparr> = e"
  by (simp add: fix_etablissement_def Let_def)

lemma fix_etablissement_province:
  "e_province (fix_etablissement E now e) =
     Some (let p = (case e_province e of None \<Rightarrow> Quebec | Some p \<Rightarrow> p)
           in case map_of PROVINCE_MAPPING p of Some p' \<Rightarrow> p' | None \<Rightarrow> p)"
  by (simp add: fix_etablissement_def Let_def or_else_def split: option.splits)

lemma fix_urgence_fields:
  "(fix_urgence now u)\<lparr>u_dms_civiere := u_dms_civiere u, u_dms_ambulatoire := u_dms_ambulatoire u,
       u_total_patients := u_total_patients u, u_patients_en_attente := u_patients_en_attente u,
       u_taux_occupation := u_taux_occupation u, u_date_maj := u_date_maj u\<rparr> = u"
  by (simp add: fix_urgence_def)

lemma fix_etablissement_kept:
  "(e_adresse e \<noteq> None \<longrightarrow> e_adresse (fix_etablissement E now e) = e_adresse e)
 \<and> (e_ville e \<noteq> None \<longrightarrow> e_ville (fix_etablissement E now e) = e_ville e)
 \<and> (e_type e \<noteq> None \<longrightarrow> e_type (fix_etablissement E now e) = e_type e)
 \<and> (e_code_postal e \<noteq> None \<longrightarrow> e_code_postal (fix_etablissement E now e) = e_code_postal e)
 \<and> (e_source_id e \<noteq> None \<longrightarrow> e_source_id (fix_etablissement E now e) = e_source_id e)
 \<and> (e_point_geo e \<noteq> None \<longrightarrow> e_point_geo (fix_etablissement E now e) = e_point_geo e)
 \<and> e_date_maj (fix_etablissement E now e) = now"
  by (auto simp: fix_etablissement_def Let_def or_else_def)

lemma fix_urgence_kept:
  "(u_dms_civiere u \<noteq> None \<longrightarrow> u_dms_civiere (fix_urgence now u) = u_dms_civiere u)
 \<and> (u_dms_ambulatoire u \<noteq> None \<longrightarrow> u_dms_ambulatoire (fix_urgence now u) = u_dms_ambulatoire u)
 \<and> (u_total_patients u \<noteq> None \<longrightarrow> u_total_patients (fix_urgence now u) = u_total_patients u)
 \<and> (u_patients_en_attente u \<noteq> None \<longrightarrow> u_patients_en_attente (fix_urgence now u) = u_patients_en_attente u)
 \<and> (u_taux_occupation u \<noteq> None \<longrightarrow> u_taux_occupation (fix_urgence now u) = u_taux_occupation u)
 \<and> u_date_maj (fix_urgence now u) = Some now"
  by (auto simp: fix_urgence_def or_else_def)

lemma info_hull: "get_etablissement_info E0 ''hull'' ''cisss'' = default_info E0"
  by (simp add: get_etablissement_info_def E0_def)

lemma province_QC: "map_of PROVINCE_MAPPING ''QC'' = Some Quebec"
  by (simp add: PROVINCE_MAPPING_def)

lemma fixed_facility:
  "fix_etablissement E0 9 facility_without_address =
     facility_without_address\<lparr>e_adresse := Some A_completer, e_province := Some Quebec,
                               e_date_maj := 9\<rparr>"
  by (simp add: fix_etablissement_def facility_without_address_def info_hull province_QC
        or_else_def default_info_def point_geo_of_def Let_def)

lemma fixed_state:
  "fix_urgence 9 state_without_durations =
     state_without_durations\<lparr>u_dms_civiere := Some (Fin 0), u_dms_ambulatoire := Some (Fin 0),
                                   u_patients_en_attente := Some (Fin 0),
                                   u_taux_occupation := Some (Fin 50), u_date_maj := Some 9\<rparr>"
  by (simp add: fix_urgence_def state_without_durations_def or_else_def taux_occupation_def
        truthy_def)

lemma accepted_facility:
  "accepts E0 (facility_without_address\<lparr>e_adresse := Some A_completer, e_province := Some Quebec,
                               e_date_maj := 9\<rparr>)"
  by code_simp

lemma backfill_example:
  "fix_null_values E0 9 incomplete_tables =
     incomplete_tables
       \<lparr>etablissements :=
          [facility_without_address\<lparr>e_adresse := Some A_completer, e_province := Some Quebec,
                                    e_date_maj := 9\<rparr>],
        etat_actuel :=
          [state_without_durations\<lparr>u_dms_civiere := Some (Fin 0), u_dms_ambulatoire := Some (Fin 0),
                                   u_patients_en_attente := Some (Fin 0),
                                   u_taux_occupation := Some (Fin 50), u_date_maj := Some 9\<rparr>]\<rparr>"
proof -
  have n: "needs_fix facility_without_address"
    by (simp add: needs_fix_def facility_without_address_def)
  have u: "urgence_needs_fix state_without_durations"
    by (simp add: urgence_needs_fix_def state_without_durations_def)
  show ?thesis
    by (simp add: fix_null_values_def incomplete_tables_def n u fixed_facility fixed_state
          accepted_facility Let_def)
qed

text \<open>
  C9.  \<open>fix_null_values\<close> leaves every row it does not select as it is.  On a
  selected facility it may change the address, city, type, postal code, source id,
  position, province and update date, and nothing else; of these, the first six keep a
  present value and the date is set to the time of the run.  The province is the
  exception: an absent one becomes \<open>Quebec\<close> and a present one that is a key of
  \<open>PROVINCE_MAPPING\<close> is replaced by its standard name.  On a selected current
  state the two lengths of stay, the total, the waiting count and the occupancy rate
  keep a present value, and the update date is set.  After a run whose commit the store
  accepted no row is selected any more, so a second run, whatever its catalog and time,
  changes nothing.
\<close>

theorem backfill_keeps_present_values_but_province:
  assumes ok: "list_all (accepts E) (map (fix_etablissement E now) (filter needs_fix (etablissements T)))"
  shows "let T1 = fix_null_values E now T in
           length (etablissements T1) = length (etablissements T)
         \<and> length (etat_actuel T1) = length (etat_actuel T)
         \<and> regions T1 = regions T \<and> historique T1 = historique T
         \<and> (\<forall>k<length (etablissements T).
               let e = etablissements T ! k; e1 = etablissements T1 ! k in
                 (\<not> needs_fix e \<longrightarrow> e1 = e)
               \<and> (needs_fix e \<longrightarrow>
                     e1\<lparr>e_adresse := e_adresse e, e_ville := e_ville e, e_type := e_type e,
                        e_code_postal := e_code_postal e, e_source_id := e_source_id e,
                        e_point_geo := e_point_geo e, e_province := e_province e,
                        e_date_maj := e_date_maj e\<rparr> = e
                   \<and> (e_adresse e \<noteq> None \<longrightarrow> e_adresse e1 = e_adresse e)
                   \<and> (e_ville e \<noteq> None \<longrightarrow> e_ville e1 = e_ville e)
                   \<and> (e_type e \<noteq> None \<longrightarrow> e_type e1 = e_type e)
                   \<and> (e_code_postal e \<noteq> None \<longrightarrow> e_code_postal e1 = e_code_postal e)
                   \<and> (e_source_id e \<noteq> None \<longrightarrow> e_source_id e1 = e_source_id e)
                   \<and> (e_point_geo e \<noteq> None \<longrightarrow> e_point_geo e1 = e_point_geo e)
                   \<and> e_date_maj e1 = now
                   \<and> e_province e1 =
                       Some (let p = (case e_province e of None \<Rightarrow> Quebec | Some p \<Rightarrow> p)
                             in case map_of PROVINCE_MAPPING p of Some p' \<Rightarrow> p' | None \<Rightarrow> p)
                   \<and> \<not> needs_fix e1))
         \<and> (\<forall>k<length (etat_actuel T).
               let u = etat_actuel T ! k; u1 = etat_actuel T1 ! k in
                 (\<not> urgence_needs_fix u \<longrightarrow> u1 = u)
               \<and> (urgence_needs_fix u \<longrightarrow>
                     u1\<lparr>u_dms_civiere := u_dms_civiere u, u_dms_ambulatoire := u_dms_ambulatoire u,
                        u_total_patients := u_total_patients u,
                        u_patients_en_attente := u_patients_en_attente u,
                        u_taux_occupation := u_taux_occupation u, u_date_maj := u_date_maj u\<rparr> = u
                   \<and> (u_dms_civiere u \<noteq> None \<longrightarrow> u_dms_civiere u1 = u_dms_civiere u)
                   \<and> (u_dms_ambulatoire u \<noteq> None \<longrightarrow> u_dms_ambulatoire u1 = u_dms_ambulatoire u)
                   \<and> (u_total_patients u \<noteq> None \<longrightarrow> u_total_patients u1 = u_total_patients u)
                   \<and> (u_patients_en_attente u \<noteq> None \<longrightarrow>
                         u_patients_en_attente u1 = u_patients_en_attente u)
                   \<and> (u_taux_occupation u \<noteq> None \<longrightarrow> u_taux_occupation u1 = u_taux_occupation u)
                   \<and> u_date_maj u1 = Some now
                   \<and> \<not> urgence_needs_fix u1))
         \<and> fix_null_values E' now' T1 = T1"
proof -
  note T1 = fix_null_values_accepted [OF ok]
  have facilities: "\<And>k. k < length (etablissements T) \<Longrightarrow> needs_fix (etablissements T ! k) \<Longrightarrow>
      etablissements (fix_null_values E now T) ! k = fix_etablissement E now (etablissements T ! k)"
    and facilities': "\<And>k. k < length (etablissements T) \<Longrightarrow> \<not> needs_fix (etablissements T ! k) \<Longrightarrow>
      etablissements (fix_null_values E now T) ! k = etablissements T ! k"
    and states: "\<And>k. k < length (etat_actuel T) \<Longrightarrow> urgence_needs_fix (etat_actuel T ! k) \<Longrightarrow>
      etat_actuel (fix_null_values E now T) ! k = fix_urgence now (etat_actuel T ! k)"
    and states': "\<And>k. k < length (etat_actuel T) \<Longrightarrow> \<not> urgence_needs_fix (etat_actuel T ! k) \<Longrightarrow>
      etat_actuel (fix_null_values E now T) ! k = etat_actuel T ! k"
    by (simp_all add: T1)
  have frame: "length (etablissements (fix_null_values E now T)) = length (etablissements T)
         \<and> length (etat_actuel (fix_null_values E now T)) = length (etat_actuel T)
         \<and> regions (fix_null_values E now T) = regions T
         \<and> historique (fix_null_values E now T) = historique T"
    by (simp add: T1)
  have idem: "fix_null_values E' now' (fix_null_values E now T) = fix_null_values E now T"
    using ok by (rule fix_null_values_idem)
  have fac: "\<forall>k<length (etablissements T).
               let e = etablissements T ! k; e1 = etablissements (fix_null_values E now T) ! k in
                 (\<not> needs_fix e \<longrightarrow> e1 = e)
               \<and> (needs_fix e \<longrightarrow>
                     e1\<lparr>e_adresse := e_adresse e, e_ville := e_ville e, e_type := e_type e,
                        e_code_postal := e_code_postal e, e_source_id := e_source_id e,
                        e_point_geo := e_point_geo e, e_province := e_province e,
                        e_date_maj := e_date_maj e\<rparr> = e
                   \<and> (e_adresse e \<noteq> None \<longrightarrow> e_adresse e1 = e_adresse e)
                   \<and> (e_ville e \<noteq> None \<longrightarrow> e_ville e1 = e_ville e)
                   \<and> (e_type e \<noteq> None \<longrightarrow> e_type e1 = e_type e)
                   \<and> (e_code_postal e \<noteq> None \<longrightarrow> e_code_postal e1 = e_code_postal e)
                   \<and> (e_source_id e \<noteq> None \<longrightarrow> e_source_id e1 = e_source_id e)
                   \<and> (e_point_geo e \<noteq> None \<longrightarrow> e_point_geo e1 = e_point_geo e)
                   \<and> e_date_maj e1 = now
                   \<and> e_province e1 =
                       Some (let p = (case e_province e of None \<Rightarrow> Quebec | Some p \<Rightarrow> p)
                             in case map_of PROVINCE_MAPPING p of Some p' \<Rightarrow> p' | None \<Rightarrow> p)
                   \<and> \<not> needs_fix e1)"
    unfolding Let_def
  proof (intro allI impI conjI)
    fix k assume k: "k < length (etablissements T)"
    { assume "\<not> needs_fix (etablissements T ! k)"
      then show "etablissements (fix_null_values E now T) ! k = etablissements T ! k"
        using k by (rule facilities' [rotated]) }
    assume n: "needs_fix (etablissements T ! k)"
    note eq = facilities [OF k n]
    show "(etablissements (fix_null_values E now T) ! k)
            \<lparr>e_adresse := e_adresse (etablissements T ! k), e_ville := e_ville (etablissements T ! k),
             e_type := e_type (etablissements T ! k),
             e_code_postal := e_code_postal (etablissements T ! k),
             e_source_id := e_source_id (etablissements T ! k),
             e_point_geo := e_point_geo (etablissements T ! k),
             e_province := e_province (etablissements T ! k),
             e_date_maj := e_date_maj (etablissements T ! k)\<rparr> = etablissements T ! k"
      unfolding eq by (rule fix_etablissement_fields)
    show "e_date_maj (etablissements (fix_null_values E now T) ! k) = now"
      unfolding eq by (simp add: fix_etablissement_kept)
    show "e_province (etablissements (fix_null_values E now T) ! k) =
            Some (case map_of PROVINCE_MAPPING
                         (case e_province (etablissements T ! k) of None \<Rightarrow> Quebec | Some p \<Rightarrow> p) of
                    None \<Rightarrow> (case e_province (etablissements T ! k) of None \<Rightarrow> Quebec | Some p \<Rightarrow> p)
                  | Some p' \<Rightarrow> p')"
      unfolding eq by (simp add: fix_etablissement_province Let_def)
    show "\<not> needs_fix (etablissements (fix_null_values E now T) ! k)"
      unfolding eq by (rule fix_etablissement_complete)
  qed (simp_all add: facilities fix_etablissement_kept)
  have urg: "\<forall>k<length (etat_actuel T).
               let u = etat_actuel T ! k; u1 = etat_actuel (fix_null_values E now T) ! k in
                 (\<not> urgence_needs_fix u \<longrightarrow> u1 = u)
               \<and> (urgence_needs_fix u \<longrightarrow>
                     u1\<lparr>u_dms_civiere := u_dms_civiere u, u_dms_ambulatoire := u_dms_ambulatoire u,
                        u_total_patients := u_total_patients u,
                        u_patients_en_attente := u_patients_en_attente u,
                        u_taux_occupation := u_taux_occupation u, u_date_maj := u_date_maj u\<rparr> = u
                   \<and> (u_dms_civiere u \<noteq> None \<longrightarrow> u_dms_civiere u1 = u_dms_civiere u)
                   \<and> (u_dms_ambulatoire u \<noteq> None \<longrightarrow> u_dms_ambulatoire u1 = u_dms_ambulatoire u)
                   \<and> (u_total_patients u \<noteq> None \<longrightarrow> u_total_patients u1 = u_total_patients u)
                   \<and> (u_patients_en_attente u \<noteq> None \<longrightarrow>
                         u_patients_en_attente u1 = u_patients_en_attente u)
                   \<and> (u_taux_occupation u \<noteq> None \<longrightarrow> u_taux_occupation u1 = u_taux_occupation u)
                   \<and> u_date_maj u1 = Some now
                   \<and> \<not> urgence_needs_fix u1)"
    unfolding Let_def
  proof (intro allI impI conjI)
    fix k assume k: "k < length (etat_actuel T)"
    { assume "\<not> urgence_needs_fix (etat_actuel T ! k)"
      then show "etat_actuel (fix_null_values E now T) ! k = etat_actuel T ! k"
        using k by (rule states' [rotated]) }
    assume n: "urgence_needs_fix (etat_actuel T ! k)"
    note eq = states [OF k n]
    show "(etat_actuel (fix_null_values E now T) ! k)
            \<lparr>u_dms_civiere := u_dms_civiere (etat_actuel T ! k),
             u_dms_ambulatoire := u_dms_ambulatoire (etat_actuel T ! k),
             u_total_patients := u_total_patients (etat_actuel T ! k),
             u_patients_en_attente := u_patients_en_attente (etat_actuel T ! k),
             u_taux_occupation := u_taux_occupation (etat_actuel T ! k),
             u_date_maj := u_date_maj (etat_actuel T ! k)\<rparr> = etat_actuel T ! k"
      unfolding eq by (rule fix_urgence_fields)
    show "u_date_maj (etat_actuel (fix_null_values E now T) ! k) = Some now"
      unfolding eq by (simp add: fix_urgence_kept)
    show "\<not> urgence_needs_fix (etat_actuel (fix_null_values E now T) ! k)"
      unfolding eq by (rule fix_urgence_complete)
  qed (simp_all add: states fix_urgence_kept)
  show ?thesis
    unfolding Let_def
    using frame fac [unfolded Let_def] urg [unfolded Let_def] idem
    by (intro conjI) (elim conjE, assumption)+
qed

theorem backfill_keeps_present_values_but_province_witness:
  "list_all (accepts E0)
     (map (fix_etablissement E0 9) (filter needs_fix (etablissements incomplete_tables)))
   \<and> fix_null_values E0 10 (fix_null_values E0 9 incomplete_tables)
       = fix_null_values E0 9 incomplete_tables
   \<and> map e_adresse (etablissements incomplete_tables) = [None]
   \<and> map e_adresse (etablissements (fix_null_values E0 9 incomplete_tables)) = [Some A_completer]
   \<and> map e_ville (etablissements incomplete_tables) = [Some ''Gatineau'']
   \<and> map e_ville (etablissements (fix_null_values E0 9 incomplete_tables)) = [Some ''Gatineau'']
   \<and> map u_total_patients (etat_actuel (fix_null_values E0 9 incomplete_tables)) = [Some (Fin 4)]
   \<and> map u_taux_occupation (etat_actuel (fix_null_values E0 9 incomplete_tables)) = [Some (Fin 50)]"
proof -
  have ok: "list_all (accepts E0)
     (map (fix_etablissement E0 9) (filter needs_fix (etablissements incomplete_tables)))"
    by (simp add: incomplete_tables_def needs_fix_def [of facility_without_address]
          fixed_facility accepted_facility)
  have idem: "fix_null_values E0 10 (fix_null_values E0 9 incomplete_tables)
       = fix_null_values E0 9 incomplete_tables"
    using backfill_keeps_present_values_but_province [OF ok, of E0 10]
    unfolding Let_def by (elim conjE)
  have rest: "map e_adresse (etablissements incomplete_tables) = [None]
   \<and> map e_adresse (etablissements (fix_null_values E0 9 incomplete_tables)) = [Some A_completer]
   \<and> map e_ville (etablissements incomplete_tables) = [Some ''Gatineau'']
   \<and> map e_ville (etablissements (fix_null_values E0 9 incomplete_tables)) = [Some ''Gatineau'']
   \<and> map u_total_patients (etat_actuel (fix_null_values E0 9 incomplete_tables)) = [Some (Fin 4)]
   \<and> map u_taux_occupation (etat_actuel (fix_null_values E0 9 incomplete_tables)) = [Some (Fin 50)]"
    unfolding backfill_example
    by (simp add: incomplete_tables_def facility_without_address_def state_without_durations_def)
  from ok idem rest show ?thesis
    by (intro conjI) (elim conjE, assumption)+
qed

text \<open>
  A facility without an address whose province reads \<open>QC\<close>: the run fills the
  address and also replaces the province, a present value, by \<open>Quebec\<close>, and
  moves the update date.
\<close>

theorem backfill_rewrites_present_province:
  "map e_province (etablissements incomplete_tables) = [Some ''QC'']
   \<and> map e_province (etablissements (fix_null_values E0 9 incomplete_tables)) = [Some Quebec]
   \<and> ''QC'' \<noteq> Quebec
   \<and> map e_date_maj (etablissements incomplete_tables) = [3]
   \<and> map e_date_maj (etablissements (fix_null_values E0 9 incomplete_tables)) = [9]"
  unfolding backfill_example
  by (simp add: incomplete_tables_def facility_without_address_def Quebec_def)

end
